theory Spec2Isabelle
  imports Main "HOL-Library.Word"
begin

section \<open>JavaScript strings and values\<close>

text \<open>
  A JavaScript string is a sequence of 16-bit code units; \<open>length\<close>, \<open>slice\<close> and
  \<open>repeat\<close> count code units. The literals of the two functions are ASCII apart from a
  few glyphs, which are written as their code units.
\<close>

type_synonym code_unit = "16 word"
type_synonym jsstring = "code_unit list"

definition ascii :: "string \<Rightarrow> jsstring" where
  "ascii s = map (\<lambda>c. of_nat (of_char c)) s"

text \<open>
  The values \<open>JSON.parse\<close> can return, and \<open>undefined\<close>, which a property read adds.
  A number is kept as the text \<open>Number.prototype.toString\<close> gives for it (\<open>3\<close>,
  \<open>-1\<close>, \<open>0.5\<close>, \<open>1e+21\<close>, \<open>Infinity\<close>): the handlers only ever convert a number to a
  string, test it for truth or pass it on. An object is the list of its own properties, in order.
\<close>

datatype jsval =
    Undefined
  | Null
  | Bool bool
  | Num jsstring
  | Str jsstring
  | Arr "jsval list"
  | Obj "(jsstring \<times> jsval) list"

datatype js_error = TypeError

text \<open>Truthiness, as \<open>!v\<close>, \<open>v || d\<close> and \<open>c ? a : b\<close> test it: \<open>0\<close>, \<open>-0\<close> (both
  printed \<open>0\<close>), \<open>NaN\<close>, the empty string, \<open>null\<close> and \<open>undefined\<close> are falsy.\<close>

fun truthy :: "jsval \<Rightarrow> bool" where
  "truthy Undefined = False"
| "truthy Null = False"
| "truthy (Bool b) = b"
| "truthy (Num r) = (r \<noteq> ascii ''0'' \<and> r \<noteq> ascii ''NaN'')"
| "truthy (Str s) = (s \<noteq> [])"
| "truthy (Arr xs) = True"
| "truthy (Obj kvs) = True"

text \<open>
  The property read \<open>v.key\<close>, for the keys the handlers read (none of them is defined on
  a prototype): \<open>null\<close> and \<open>undefined\<close> throw a TypeError, an object gives its own
  property or \<open>undefined\<close>, every other value gives \<open>undefined\<close>.
\<close>

fun get_prop :: "jsval \<Rightarrow> jsstring \<Rightarrow> js_error + jsval" where
  "get_prop Undefined key = Inl TypeError"
| "get_prop Null key = Inl TypeError"
| "get_prop (Obj kvs) key = Inr (case map_of kvs key of None \<Rightarrow> Undefined | Some v \<Rightarrow> v)"
| "get_prop v key = Inr Undefined"

text \<open>The optional chain \<open>v?.key\<close>: \<open>undefined\<close> when \<open>v\<close> is \<open>null\<close> or \<open>undefined\<close>.\<close>

fun get_prop_opt :: "jsval \<Rightarrow> jsstring \<Rightarrow> jsval" where
  "get_prop_opt (Obj kvs) key = (case map_of kvs key of None \<Rightarrow> Undefined | Some v \<Rightarrow> v)"
| "get_prop_opt v key = Undefined"

text \<open>\<open>v || ''\<close>\<close>

definition or_empty :: "jsval \<Rightarrow> jsval" where
  "or_empty v = (if truthy v then v else Str [])"

fun isArray :: "jsval \<Rightarrow> bool" where
  "isArray (Arr xs) = True"
| "isArray v = False"

text \<open>\<open>typeof v === 'number'\<close>\<close>

fun is_number :: "jsval \<Rightarrow> bool" where
  "is_number (Num r) = True"
| "is_number v = False"

text \<open>
  \<open>String(v)\<close>. An array is its elements joined by commas, \<open>null\<close> and \<open>undefined\<close>
  elements printing as nothing. An object parsed from JSON prints as \<open>[object Object]\<close>
  through \<open>Object.prototype.toString\<close>, unless it has an own property \<open>toString\<close>: that
  property holds JSON data, not a function, the inherited \<open>valueOf\<close> returns the object
  itself, and the conversion throws a TypeError.
\<close>

fun to_string :: "jsval \<Rightarrow> js_error + jsstring"
  and join_elems :: "jsval list \<Rightarrow> js_error + jsstring" where
  "to_string Undefined = Inr (ascii ''undefined'')"
| "to_string Null = Inr (ascii ''null'')"
| "to_string (Bool b) = Inr (if b then ascii ''true'' else ascii ''false'')"
| "to_string (Num r) = Inr r"
| "to_string (Str s) = Inr s"
| "to_string (Arr xs) = join_elems xs"
| "to_string (Obj kvs) =
     (if ascii ''toString'' \<in> fst ` set kvs then Inl TypeError
      else Inr (ascii ''[object Object]''))"
| "join_elems [] = Inr []"
| "join_elems (x # xs) =
     (case (if x = Null \<or> x = Undefined then Inr [] else to_string x) of
        Inl e \<Rightarrow> Inl e
      | Inr s \<Rightarrow>
          (if xs = [] then Inr s
           else (case join_elems xs of
                   Inl e \<Rightarrow> Inl e
                 | Inr r \<Rightarrow> Inr (s @ ascii '','' @ r))))"

text \<open>\<open>s.slice(0, n)\<close> for a string and for an array, with \<open>0 \<le> n\<close>.\<close>

definition slice0 :: "nat \<Rightarrow> 'a list \<Rightarrow> 'a list" where
  "slice0 n xs = take n xs"

text \<open>White space and line terminators, as \<open>trim\<close> and \<open>parseInt\<close> skip them.\<close>

definition is_white_space :: "code_unit \<Rightarrow> bool" where
  "is_white_space c \<longleftrightarrow>
     c = 0x9 \<or> c = 0xA \<or> c = 0xB \<or> c = 0xC \<or> c = 0xD \<or> c = 0x20 \<or> c = 0xA0 \<or>
     c = 0x1680 \<or> (0x2000 \<le> c \<and> c \<le> 0x200A) \<or> c = 0x2028 \<or> c = 0x2029 \<or>
     c = 0x202F \<or> c = 0x205F \<or> c = 0x3000 \<or> c = 0xFEFF"

definition trim :: "jsstring \<Rightarrow> jsstring" where
  "trim s = rev (dropWhile is_white_space (rev (dropWhile is_white_space s)))"

text \<open>The value of a digit in radix 10 or 16, if it is one.\<close>

definition digit_value :: "nat \<Rightarrow> code_unit \<Rightarrow> nat option" where
  "digit_value radix c =
     (if 0x30 \<le> c \<and> c \<le> 0x39 then Some (unat c - 0x30)
      else if radix = 16 \<and> 0x61 \<le> c \<and> c \<le> 0x66 then Some (unat c - 0x61 + 10)
      else if radix = 16 \<and> 0x41 \<le> c \<and> c \<le> 0x46 then Some (unat c - 0x41 + 10)
      else None)"

fun digits_value :: "nat \<Rightarrow> nat \<Rightarrow> jsstring \<Rightarrow> nat" where
  "digits_value radix acc [] = acc"
| "digits_value radix acc (c # cs) =
     digits_value radix (acc * radix + (case digit_value radix c of None \<Rightarrow> 0 | Some d \<Rightarrow> d)) cs"

text \<open>
  \<open>parseInt(s)\<close> with no radix: leading white space is skipped, a sign is read, a prefix
  \<open>0x\<close> or \<open>0X\<close> selects radix 16, and the longest run of digits is the value; \<open>None\<close> is
  \<open>NaN\<close>. The result is the mathematical integer: the handler only compares it with 1 and
  5, which the rounding to a double does not change.
\<close>

definition parseInt :: "jsstring \<Rightarrow> int option" where
  "parseInt input =
     (let s = dropWhile is_white_space input;
          negative = (case s of [] \<Rightarrow> False | c # _ \<Rightarrow> c = 0x2D);
          s1 = (case s of [] \<Rightarrow> [] | c # cs \<Rightarrow> if c = 0x2B \<or> c = 0x2D then cs else s);
          hex = (case s1 of a # b # _ \<Rightarrow> a = 0x30 \<and> (b = 0x78 \<or> b = 0x58) | _ \<Rightarrow> False);
          radix = (if hex then 16 else 10);
          s2 = (if hex then drop 2 s1 else s1);
          z = takeWhile (\<lambda>c. digit_value radix c \<noteq> None) s2
      in if z = [] then None
         else Some ((if negative then - 1 else 1) * int (digits_value radix 0 z)))"

text \<open>\<open>/^\d{15,20}$/.test(s)\<close>: the whole string is 15 to 20 ASCII digits.\<close>

definition test_digits_15_20 :: "jsstring \<Rightarrow> bool" where
  "test_digits_15_20 s \<longleftrightarrow>
     15 \<le> length s \<and> length s \<le> 20 \<and> list_all (\<lambda>c. 0x30 \<le> c \<and> c \<le> 0x39) s"

text \<open>
  The numbers that are not finite, by their text. \<open>JSON.parse\<close> returns \<open>Infinity\<close> or
  \<open>-Infinity\<close> for a literal beyond the range of a double, such as \<open>1e400\<close>.
\<close>

definition non_finite :: "jsstring \<Rightarrow> bool" where
  "non_finite r \<longleftrightarrow> r = ascii ''Infinity'' \<or> r = ascii ''-Infinity'' \<or> r = ascii ''NaN''"

text \<open>
  \<open>JSON.stringify(v)\<close>, as the document it writes rather than its text: a property whose
  value is \<open>undefined\<close> is left out, an \<open>undefined\<close> array element is written \<open>null\<close>, and
  so is a number that is not finite.
\<close>

fun JSON_stringify :: "jsval \<Rightarrow> jsval"
  and stringify_props :: "(jsstring \<times> jsval) list \<Rightarrow> (jsstring \<times> jsval) list"
  and stringify_elems :: "jsval list \<Rightarrow> jsval list" where
  "JSON_stringify (Obj kvs) = Obj (stringify_props kvs)"
| "JSON_stringify (Arr xs) = Arr (stringify_elems xs)"
| "JSON_stringify Undefined = Undefined"
| "JSON_stringify Null = Null"
| "JSON_stringify (Bool b) = Bool b"
| "JSON_stringify (Num r) = (if non_finite r then Null else Num r)"
| "JSON_stringify (Str s) = Str s"
| "stringify_props [] = []"
| "stringify_props (kv # kvs) =
     (if snd kv = Undefined then stringify_props kvs
      else (fst kv, JSON_stringify (snd kv)) # stringify_props kvs)"
| "stringify_elems [] = []"
| "stringify_elems (x # xs) =
     (if x = Undefined then Null else JSON_stringify x) # stringify_elems xs"

section \<open>Rate limiting\<close>

text \<open>
  \<open>rateLimitMap\<close> is a \<open>Map\<close> from the client IP to \<open>{ count, start }\<close>; each function
  has its own. \<open>isRateLimited\<close> reads \<open>Date.now()\<close> (milliseconds), here the argument
  \<open>now\<close>, and returns its verdict together with the map it leaves.
\<close>

record entry =
  count :: nat
  start :: int

type_synonym rate_map = "jsstring \<rightharpoonup> entry"

subsection \<open>webhook-connexion\<close>

definition RATE_LIMIT_WINDOW_MS_connexion :: int where
  "RATE_LIMIT_WINDOW_MS_connexion = 60 * 1000"

definition RATE_LIMIT_MAX_connexion :: nat where
  "RATE_LIMIT_MAX_connexion = 5"

definition isRateLimited_connexion :: "int \<Rightarrow> jsstring \<Rightarrow> rate_map \<Rightarrow> bool \<times> rate_map" where
  "isRateLimited_connexion now ip m =
     (let e = (case m ip of None \<Rightarrow> \<lparr>count = 0, start = now\<rparr> | Some e \<Rightarrow> e)
      in if now - start e > RATE_LIMIT_WINDOW_MS_connexion
         then (False, m(ip \<mapsto> \<lparr>count = 1, start = now\<rparr>))
         else if count e \<ge> RATE_LIMIT_MAX_connexion then (True, m)
         else (False, m(ip \<mapsto> e\<lparr>count := count e + 1\<rparr>)))"

subsection \<open>webhook-avis\<close>

definition RATE_LIMIT_WINDOW_MS_avis :: int where
  "RATE_LIMIT_WINDOW_MS_avis = 5 * 60 * 1000"

definition RATE_LIMIT_MAX_avis :: nat where
  "RATE_LIMIT_MAX_avis = 2"

definition isRateLimited_avis :: "int \<Rightarrow> jsstring \<Rightarrow> rate_map \<Rightarrow> bool \<times> rate_map" where
  "isRateLimited_avis now ip m =
     (let e = (case m ip of None \<Rightarrow> \<lparr>count = 0, start = now\<rparr> | Some e \<Rightarrow> e)
      in if now - start e > RATE_LIMIT_WINDOW_MS_avis
         then (False, m(ip \<mapsto> \<lparr>count = 1, start = now\<rparr>))
         else if count e \<ge> RATE_LIMIT_MAX_avis then (True, m)
         else (False, m(ip \<mapsto> e\<lparr>count := count e + 1\<rparr>)))"

text \<open>
  A run of admission checks by one IP at the given times, each on the map the one before
  left: the verdicts in order (\<open>True\<close> is a denial) and the last map.
\<close>

fun checks :: "(int \<Rightarrow> jsstring \<Rightarrow> rate_map \<Rightarrow> bool \<times> rate_map) \<Rightarrow> jsstring \<Rightarrow> int list \<Rightarrow>
    rate_map \<Rightarrow> bool list \<times> rate_map" where
  "checks limiter ip [] m = ([], m)"
| "checks limiter ip (t # ts) m =
     (let (limited, m') = limiter t ip m;
          (rest, m'') = checks limiter ip ts m'
      in (limited # rest, m''))"

section \<open>Requests, responses and the environment\<close>

text \<open>
  What a handler reads of the event: the two headers (absent or a string), the method, and
  the body through \<open>JSON.parse(event.body)\<close>, which is \<open>None\<close> when the parser throws.
\<close>

record event =
  origin_header :: "jsstring option"
  forwarded_for_header :: "jsstring option"
  httpMethod :: jsstring
  body_json :: "jsval option"

text \<open>A response object; \<open>headers\<close> is empty when the handler sets none.\<close>

record response =
  statusCode :: nat
  body :: jsstring
  headers :: "(jsstring \<times> jsstring) list"

text \<open>What \<open>await fetch(...)\<close> does: it throws, or it gives a response with a status,
  whose \<open>ok\<close> is true for 200 to 299.\<close>

datatype fetch_outcome = FetchThrows | FetchStatus nat

definition response_ok :: "nat \<Rightarrow> bool" where
  "response_ok st \<longleftrightarrow> 200 \<le> st \<and> st \<le> 299"

text \<open>
  What a handler reads of the world: \<open>Date.now()\<close>, the text of the \<open>k\<close>-th
  \<open>new Date().toISOString()\<close> of the invocation, the environment variable holding the
  webhook URL (absent or a string), and the behaviour of the network.
\<close>

record env =
  date_now :: int
  iso_clock :: "nat \<Rightarrow> jsstring"
  webhook_url :: "jsstring option"
  network :: fetch_outcome

text \<open>
  An invocation returns a response or rejects with an uncaught error. Its effects are the
  rate-limit map it leaves and the request it posted, if any: the URL and the document.
\<close>

datatype outcome = Returns response | Throws js_error

record result =
  outcome :: outcome
  rateLimitMap :: rate_map
  posted :: "(jsstring \<times> jsval) option"

text \<open>A stage of a handler throws, returns the response early, or goes on with a value.\<close>

datatype 'a step = Throw js_error | Reply response | Next 'a

fun bind_js :: "js_error + 'a \<Rightarrow> ('a \<Rightarrow> js_error + 'b) \<Rightarrow> js_error + 'b" where
  "bind_js (Inl e) f = Inl e"
| "bind_js (Inr x) f = f x"

text \<open>\<open>xs.map(f)\<close> with a callback that may throw.\<close>

fun map_js :: "('a \<Rightarrow> js_error + 'b) \<Rightarrow> 'a list \<Rightarrow> js_error + 'b list" where
  "map_js f [] = Inr []"
| "map_js f (x # xs) =
     bind_js (f x) (\<lambda>y. bind_js (map_js f xs) (\<lambda>ys. Inr (y # ys)))"

definition ALLOWED_ORIGIN :: jsstring where
  "ALLOWED_ORIGIN = ascii ''https://devcenter.vyral-studio.fr''"

definition reply :: "nat \<Rightarrow> jsstring \<Rightarrow> response" where
  "reply st b = \<lparr>statusCode = st, body = b, headers = []\<rparr>"

definition reply_json :: "nat \<Rightarrow> jsstring \<Rightarrow> response" where
  "reply_json st b =
     \<lparr>statusCode = st, body = b,
      headers = [(ascii ''Content-Type'', ascii ''application/json'')]\<rparr>"

text \<open>\<open>event.headers['origin'] || ''\<close>\<close>

definition request_origin :: "event \<Rightarrow> jsstring" where
  "request_origin ev = (case origin_header ev of None \<Rightarrow> [] | Some s \<Rightarrow> s)"

text \<open>\<open>event.headers['x-forwarded-for']?.split(',')[0] || 'unknown'\<close>\<close>

definition client_ip :: "event \<Rightarrow> jsstring" where
  "client_ip ev =
     (case forwarded_for_header ev of
        None \<Rightarrow> ascii ''unknown''
      | Some h \<Rightarrow>
          (let first = takeWhile (\<lambda>c. c \<noteq> 0x2C) h
           in if first = [] then ascii ''unknown'' else first))"

text \<open>
  The \<open>try\<close> block of both handlers: one POST of the serialised payload; a response that
  is not \<open>ok\<close> and a thrown error both give 502.
\<close>

definition success_response :: response where
  "success_response =
     \<lparr>statusCode = 200,
      body = ascii ''{'' @ [0x22] @ ascii ''success'' @ [0x22] @ ascii '':true}'',
      headers = [(ascii ''Content-Type'', ascii ''application/json''),
                 (ascii ''Access-Control-Allow-Origin'', ALLOWED_ORIGIN)]\<rparr>"

definition send_to_discord :: "fetch_outcome \<Rightarrow> response" where
  "send_to_discord net =
     (case net of
        FetchStatus st \<Rightarrow>
          (if \<not> response_ok st then reply 502 (ascii ''Discord webhook failed'')
           else success_response)
      | FetchThrows \<Rightarrow> reply 502 (ascii ''Network error''))"

section \<open>webhook-connexion\<close>

text \<open>The callback of \<open>embed.fields.slice(0, 25).map\<close>.\<close>

definition sanitize_field :: "jsval \<Rightarrow> js_error + jsval" where
  "sanitize_field f =
     bind_js (get_prop f (ascii ''name'')) (\<lambda>name.
     bind_js (to_string (or_empty name)) (\<lambda>name_s.
     bind_js (get_prop f (ascii ''value'')) (\<lambda>val.
     bind_js (to_string (or_empty val)) (\<lambda>val_s.
     bind_js (get_prop f (ascii ''inline'')) (\<lambda>inline.
     Inr (Obj [(ascii ''name'', Str (slice0 256 name_s)),
               (ascii ''value'', Str (slice0 1024 val_s)),
               (ascii ''inline'', Bool (truthy inline))]))))))"

text \<open>The callback of \<open>payload.embeds.map\<close>; \<open>ts\<close> is \<open>new Date().toISOString()\<close>.\<close>

definition sanitize_embed :: "jsstring \<Rightarrow> jsval \<Rightarrow> js_error + jsval" where
  "sanitize_embed ts emb =
     bind_js (get_prop emb (ascii ''title'')) (\<lambda>title.
     bind_js (to_string (or_empty title)) (\<lambda>title_s.
     bind_js (get_prop emb (ascii ''description'')) (\<lambda>description.
     bind_js (to_string (or_empty description)) (\<lambda>description_s.
     bind_js (get_prop emb (ascii ''color'')) (\<lambda>color.
     bind_js (get_prop emb (ascii ''thumbnail'')) (\<lambda>thumbnail.
     bind_js (if truthy (get_prop_opt thumbnail (ascii ''url''))
              then bind_js (to_string (get_prop_opt thumbnail (ascii ''url''))) (\<lambda>url_s.
                     Inr (Obj [(ascii ''url'', Str (slice0 512 url_s))]))
              else Inr Undefined) (\<lambda>safe_thumbnail.
     bind_js (get_prop emb (ascii ''fields'')) (\<lambda>fields.
     bind_js (case fields of
                Arr fs \<Rightarrow> bind_js (map_js sanitize_field (slice0 25 fs)) (\<lambda>ys. Inr (Arr ys))
              | _ \<Rightarrow> Inr (Arr [])) (\<lambda>safe_fields.
     Inr (Obj [(ascii ''title'', Str (slice0 256 title_s)),
               (ascii ''description'', Str (slice0 4096 description_s)),
               (ascii ''color'', if is_number color then color else Num (ascii ''0'')),
               (ascii ''thumbnail'', safe_thumbnail),
               (ascii ''fields'', safe_fields),
               (ascii ''timestamp'', Str ts)]))))))))))"

text \<open>\<open>safePayload\<close>: the \<open>k\<close>-th embed is stamped by the \<open>k\<close>-th reading of the clock.\<close>

definition safePayload_connexion :: "(nat \<Rightarrow> jsstring) \<Rightarrow> jsval list \<Rightarrow> js_error + jsval" where
  "safePayload_connexion clock embeds =
     bind_js (map_js (\<lambda>(k, emb). sanitize_embed (clock k) emb) (List.enumerate 0 embeds))
       (\<lambda>safe. Inr (Obj [(ascii ''embeds'', Arr safe)]))"

text \<open>The check of the payload's structure: the array \<open>payload.embeds\<close>, or the 400.\<close>

definition validate_connexion :: "jsval \<Rightarrow> jsval list step" where
  "validate_connexion payload =
     (case get_prop payload (ascii ''embeds'') of
        Inl e \<Rightarrow> Throw e
      | Inr embeds \<Rightarrow>
          (if \<not> truthy embeds \<or> \<not> isArray embeds
           then Reply (reply 400 (ascii ''Invalid payload structure''))
           else (case embeds of Arr es \<Rightarrow> Next es | _ \<Rightarrow> Next [])))"

definition too_many_requests_connexion :: response where
  "too_many_requests_connexion =
     reply_json 429
       (ascii ''{'' @ [0x22] @ ascii ''error'' @ [0x22] @ ascii '':'' @ [0x22] @
        ascii ''Too many requests'' @ [0x22] @ ascii ''}'')"

definition handler_connexion :: "event \<Rightarrow> env \<Rightarrow> rate_map \<Rightarrow> result" where
  "handler_connexion ev en rl =
     (if request_origin ev \<noteq> ALLOWED_ORIGIN
      then \<lparr>outcome = Returns (reply 403 (ascii ''Forbidden'')), rateLimitMap = rl, posted = None\<rparr>
      else if httpMethod ev \<noteq> ascii ''POST''
      then \<lparr>outcome = Returns (reply 405 (ascii ''Method Not Allowed'')), rateLimitMap = rl,
            posted = None\<rparr>
      else
        (let (limited, rl') = isRateLimited_connexion (date_now en) (client_ip ev) rl
         in if limited
            then \<lparr>outcome = Returns too_many_requests_connexion, rateLimitMap = rl',
                  posted = None\<rparr>
            else
              (case body_json ev of
                 None \<Rightarrow>
                   \<lparr>outcome = Returns (reply 400 (ascii ''Invalid JSON'')), rateLimitMap = rl',
                    posted = None\<rparr>
               | Some payload \<Rightarrow>
                   (case validate_connexion payload of
                      Throw e \<Rightarrow> \<lparr>outcome = Throws e, rateLimitMap = rl', posted = None\<rparr>
                    | Reply r \<Rightarrow> \<lparr>outcome = Returns r, rateLimitMap = rl', posted = None\<rparr>
                    | Next embeds \<Rightarrow>
                        (case safePayload_connexion (iso_clock en) embeds of
                           Inl e \<Rightarrow> \<lparr>outcome = Throws e, rateLimitMap = rl', posted = None\<rparr>
                         | Inr safePayload \<Rightarrow>
                             (case webhook_url en of
                                None \<Rightarrow>
                                  \<lparr>outcome = Returns (reply 500 (ascii ''Webhook not configured'')),
                                   rateLimitMap = rl', posted = None\<rparr>
                              | Some url \<Rightarrow>
                                  (if url = []
                                   then \<lparr>outcome =
                                           Returns (reply 500 (ascii ''Webhook not configured'')),
                                         rateLimitMap = rl', posted = None\<rparr>
                                   else \<lparr>outcome = Returns (send_to_discord (network en)),
                                         rateLimitMap = rl',
                                         posted = Some (url, JSON_stringify safePayload)\<rparr>)))))))"

section \<open>webhook-avis\<close>

text \<open>What the validation of a review hands on: \<open>username\<close>, \<open>userId\<close>, \<open>safeRating\<close>,
  \<open>safeComment\<close> and \<open>avatarUrl\<close>.\<close>

record avis =
  avis_username :: jsval
  avis_userId :: jsval
  avis_rating :: int
  avis_comment :: jsstring
  avis_avatarUrl :: jsval

text \<open>
  The destructuring of the payload and the strict validation of the review: the four
  required fields, the rating, the comment, the Discord ID, in this order.
\<close>

definition validate_avis :: "jsval \<Rightarrow> avis step" where
  "validate_avis payload =
     (case bind_js (get_prop payload (ascii ''username'')) (\<lambda>username.
           bind_js (get_prop payload (ascii ''userId'')) (\<lambda>userId.
           bind_js (get_prop payload (ascii ''rating'')) (\<lambda>rating.
           bind_js (get_prop payload (ascii ''comment'')) (\<lambda>comment.
           bind_js (get_prop payload (ascii ''avatarUrl'')) (\<lambda>avatarUrl.
           Inr (username, userId, rating, comment, avatarUrl)))))) of
        Inl e \<Rightarrow> Throw e
      | Inr (username, userId, rating, comment, avatarUrl) \<Rightarrow>
          (if \<not> truthy username \<or> \<not> truthy userId \<or> \<not> truthy rating \<or> \<not> truthy comment
           then Reply (reply 400 (ascii ''Missing fields''))
           else
             (case to_string rating of
                Inl e \<Rightarrow> Throw e
              | Inr rating_s \<Rightarrow>
                  (case parseInt rating_s of
                     None \<Rightarrow> Reply (reply 400 (ascii ''Invalid rating''))
                   | Some safeRating \<Rightarrow>
                       (if safeRating < 1 \<or> safeRating > 5
                        then Reply (reply 400 (ascii ''Invalid rating''))
                        else
                          (case to_string comment of
                             Inl e \<Rightarrow> Throw e
                           | Inr comment_s \<Rightarrow>
                               (let safeComment = slice0 500 comment_s
                                in if length (trim safeComment) < 5
                                   then Reply (reply 400 (ascii ''Comment too short''))
                                   else
                                     (case to_string userId of
                                        Inl e \<Rightarrow> Throw e
                                      | Inr userId_s \<Rightarrow>
                                          (if \<not> test_digits_15_20 userId_s
                                           then Reply (reply 400 (ascii ''Invalid user ID''))
                                           else Next \<lparr>avis_username = username,
                                                       avis_userId = userId,
                                                       avis_rating = safeRating,
                                                       avis_comment = safeComment,
                                                       avis_avatarUrl = avatarUrl\<rparr>)))))))))"

definition star :: code_unit where
  "star = 0x2B50"

text \<open>\<open>safePayload\<close>; \<open>ts\<close> is \<open>new Date().toISOString()\<close>.\<close>

definition safePayload_avis :: "jsstring \<Rightarrow> avis \<Rightarrow> js_error + jsval" where
  "safePayload_avis ts a =
     bind_js (if truthy (avis_avatarUrl a)
              then bind_js (to_string (avis_avatarUrl a)) (\<lambda>url_s.
                     Inr (Obj [(ascii ''url'', Str (slice0 512 url_s))]))
              else Inr Undefined) (\<lambda>thumbnail.
     bind_js (to_string (avis_username a)) (\<lambda>username_s.
     bind_js (to_string (avis_userId a)) (\<lambda>userId_s.
     Inr (Obj
       [(ascii ''content'',
           Str ([star] @ ascii '' **Nouvel avis re'' @ [0xE7] @ ascii ''u !**'')),
        (ascii ''embeds'', Arr [Obj
           [(ascii ''title'', Str ([0xD83D, 0xDCAC] @ ascii '' Avis Client'')),
            (ascii ''color'', Num (ascii ''16777215'')),
            (ascii ''thumbnail'', thumbnail),
            (ascii ''fields'', Arr
               [Obj [(ascii ''name'', Str (ascii ''Utilisateur'')),
                     (ascii ''value'', Str (slice0 100 username_s)),
                     (ascii ''inline'', Bool True)],
                Obj [(ascii ''name'', Str (ascii ''ID'')),
                     (ascii ''value'', Str (slice0 20 userId_s)),
                     (ascii ''inline'', Bool True)],
                Obj [(ascii ''name'', Str (ascii ''Note'')),
                     (ascii ''value'', Str (replicate (nat (avis_rating a)) star)),
                     (ascii ''inline'', Bool False)],
                Obj [(ascii ''name'', Str (ascii ''Commentaire'')),
                     (ascii ''value'', Str (avis_comment a)),
                     (ascii ''inline'', Bool False)]]),
            (ascii ''timestamp'', Str ts)]])]))))"

definition too_many_requests_avis :: response where
  "too_many_requests_avis =
     reply_json 429
       (ascii ''{'' @ [0x22] @ ascii ''error'' @ [0x22] @ ascii '':'' @ [0x22] @
        ascii ''Trop d'' @ [0x27] @ ascii ''avis envoy'' @ [0xE9] @
        ascii ''s. Attendez quelques minutes.'' @ [0x22] @ ascii ''}'')"

definition handler_avis :: "event \<Rightarrow> env \<Rightarrow> rate_map \<Rightarrow> result" where
  "handler_avis ev en rl =
     (if request_origin ev \<noteq> ALLOWED_ORIGIN
      then \<lparr>outcome = Returns (reply 403 (ascii ''Forbidden'')), rateLimitMap = rl, posted = None\<rparr>
      else if httpMethod ev \<noteq> ascii ''POST''
      then \<lparr>outcome = Returns (reply 405 (ascii ''Method Not Allowed'')), rateLimitMap = rl,
            posted = None\<rparr>
      else
        (let (limited, rl') = isRateLimited_avis (date_now en) (client_ip ev) rl
         in if limited
            then \<lparr>outcome = Returns too_many_requests_avis, rateLimitMap = rl', posted = None\<rparr>
            else
              (case body_json ev of
                 None \<Rightarrow>
                   \<lparr>outcome = Returns (reply 400 (ascii ''Invalid JSON'')), rateLimitMap = rl',
                    posted = None\<rparr>
               | Some payload \<Rightarrow>
                   (case validate_avis payload of
                      Throw e \<Rightarrow> \<lparr>outcome = Throws e, rateLimitMap = rl', posted = None\<rparr>
                    | Reply r \<Rightarrow> \<lparr>outcome = Returns r, rateLimitMap = rl', posted = None\<rparr>
                    | Next a \<Rightarrow>
                        (case webhook_url en of
                           None \<Rightarrow>
                             \<lparr>outcome = Returns (reply 500 (ascii ''Webhook not configured'')),
                              rateLimitMap = rl', posted = None\<rparr>
                         | Some url \<Rightarrow>
                             (if url = []
                              then \<lparr>outcome =
                                      Returns (reply 500 (ascii ''Webhook not configured'')),
                                    rateLimitMap = rl', posted = None\<rparr>
                              else
                                (case safePayload_avis (iso_clock en 0) a of
                                   Inl e \<Rightarrow>
                                     \<lparr>outcome = Throws e, rateLimitMap = rl', posted = None\<rparr>
                                 | Inr safePayload \<Rightarrow>
                                     \<lparr>outcome = Returns (send_to_discord (network en)),
                                      rateLimitMap = rl',
                                      posted = Some (url, JSON_stringify safePayload)\<rparr>)))))))"

section \<open>The admission rule as the specification words it\<close>

text \<open>
  Following the specification (not the source): look the IP's entry up; if it is absent or
  \<open>now - windowStart > windowLengthMs\<close>, reset it to count 1 and window start \<open>now\<close> and
  admit; else if \<open>count \<ge> maxCount\<close>, deny without changing the state; else increment the
  count and admit. The verdict is \<open>True\<close> for a denial, as \<open>isRateLimited\<close> returns it.
\<close>

definition spec_admission_check :: "int \<Rightarrow> nat \<Rightarrow> int \<Rightarrow> jsstring \<Rightarrow> rate_map \<Rightarrow> bool \<times> rate_map" where
  "spec_admission_check W M now ip m =
     (case m ip of
        None \<Rightarrow> (False, m(ip \<mapsto> \<lparr>count = 1, start = now\<rparr>))
      | Some e \<Rightarrow>
          (if now - start e > W then (False, m(ip \<mapsto> \<lparr>count = 1, start = now\<rparr>))
           else if count e \<ge> M then (True, m)
           else (False, m(ip \<mapsto> e\<lparr>count := count e + 1\<rparr>))))"

section \<open>Example requests\<close>

text \<open>A POST from the allowed origin with the given parsed body, and an environment with
  the webhook configured and a downstream that answers 204.\<close>

definition site_post :: "jsval \<Rightarrow> event" where
  "site_post payload =
     \<lparr>origin_header = Some ALLOWED_ORIGIN, forwarded_for_header = Some (ascii ''203.0.113.7''),
      httpMethod = ascii ''POST'', body_json = Some payload\<rparr>"

definition example_env :: env where
  "example_env =
     \<lparr>date_now = 1000, iso_clock = (\<lambda>k. ascii ''2025-01-01T00:00:00.000Z''),
      webhook_url = Some (ascii ''https://discord.com/api/webhooks/1/x''),
      network = FetchStatus 204\<rparr>"

section \<open>The rate limiter\<close>

lemma isRateLimited_connexion_eq:
  "isRateLimited_connexion = spec_admission_check 60000 5"
  by (intro ext)
     (simp add: isRateLimited_connexion_def spec_admission_check_def Let_def
        RATE_LIMIT_WINDOW_MS_connexion_def RATE_LIMIT_MAX_connexion_def split: option.splits)

lemma isRateLimited_avis_eq:
  "isRateLimited_avis = spec_admission_check 300000 2"
  by (intro ext)
     (simp add: isRateLimited_avis_def spec_admission_check_def Let_def
        RATE_LIMIT_WINDOW_MS_avis_def RATE_LIMIT_MAX_avis_def split: option.splits)

lemma checks_Cons:
  "spec_admission_check W M t ip m = (v, m') \<Longrightarrow>
   fst (checks (spec_admission_check W M) ip (t # ts) m) =
   v # fst (checks (spec_admission_check W M) ip ts m')"
  by (simp add: split_beta)

lemma checks_in_window:
  "m ip = Some e \<Longrightarrow> \<forall>t\<in>set ts. t - start e \<le> W \<Longrightarrow>
   fst (checks (spec_admission_check W M) ip ts m) = map (\<lambda>k. M \<le> count e + k) [0..<length ts]"
proof (induction ts arbitrary: m e)
  case Nil
  then show ?case by simp
next
  case (Cons t ts)
  have in_window: "\<not> t - start e > W" using Cons.prems(2) by simp
  have shift: "[0..<Suc (length ts)] = 0 # map Suc [0..<length ts]"
    by (simp add: upt_conv_Cons map_Suc_upt del: upt_Suc)
  show ?case
  proof (cases "M \<le> count e")
    case True
    then have step: "spec_admission_check W M t ip m = (True, m)"
      using Cons.prems(1) in_window by (simp add: spec_admission_check_def)
    have still: "\<forall>t\<in>set ts. t - start e \<le> W" using Cons.prems(2) by simp
    have "fst (checks (spec_admission_check W M) ip (t # ts) m) =
          True # map (\<lambda>k. M \<le> count e + k) [0..<length ts]"
      by (simp only: checks_Cons [OF step] Cons.IH [of m e, OF Cons.prems(1) still])
    also have "\<dots> = map (\<lambda>k. M \<le> count e + k) [0..<length (t # ts)]"
      using True by (simp add: shift comp_def del: upt_Suc)
    finally show ?thesis .
  next
    case False
    define e' where "e' = e\<lparr>count := count e + 1\<rparr>"
    define m' where "m' = m(ip \<mapsto> e')"
    have step: "spec_admission_check W M t ip m = (False, m')"
      using Cons.prems(1) in_window False by (simp add: spec_admission_check_def m'_def e'_def)
    have stored: "m' ip = Some e'" by (simp add: m'_def)
    have still: "\<forall>t\<in>set ts. t - start e' \<le> W" using Cons.prems(2) by (simp add: e'_def)
    have "fst (checks (spec_admission_check W M) ip (t # ts) m) =
          False # map (\<lambda>k. M \<le> count e' + k) [0..<length ts]"
      by (simp only: checks_Cons [OF step] Cons.IH [of m' e', OF stored still])
    also have "\<dots> = map (\<lambda>k. M \<le> count e + k) [0..<length (t # ts)]"
      using False by (simp add: shift comp_def e'_def del: upt_Suc)
    finally show ?thesis .
  qed
qed

lemma checks_new_window:
  assumes fresh: "m ip = None \<or> (\<exists>e. m ip = Some e \<and> t0 - start e > W)"
    and within: "\<forall>t\<in>set ts. t - t0 \<le> W"
    and pos: "1 \<le> M"
  shows "fst (checks (spec_admission_check W M) ip (t0 # ts) m) = map (\<lambda>N. \<not> N \<le> M) [1..<length ts + 2]"
proof -
  define e' where "e' = \<lparr>count = 1, start = t0\<rparr>"
  define m' where "m' = m(ip \<mapsto> e')"
  have first: "spec_admission_check W M t0 ip m = (False, m')"
    using fresh by (auto simp: spec_admission_check_def m'_def e'_def)
  have stored: "m' ip = Some e'" by (simp add: m'_def)
  have still: "\<forall>t\<in>set ts. t - start e' \<le> W" using within by (simp add: e'_def)
  have "[Suc 0..<Suc (Suc (length ts))] = Suc 0 # [Suc (Suc 0)..<Suc (Suc (length ts))]"
    by (simp add: upt_conv_Cons del: upt_Suc)
  also have "[Suc (Suc 0)..<Suc (Suc (length ts))] = map (\<lambda>k. Suc (Suc k)) [0..<length ts]"
    using map_add_upt [of 2 "length ts"] by (simp add: numeral_2_eq_2)
  finally have idx: "[Suc 0..<Suc (Suc (length ts))] = Suc 0 # map (\<lambda>k. Suc (Suc k)) [0..<length ts]" .
  have "fst (checks (spec_admission_check W M) ip (t0 # ts) m) =
        False # map (\<lambda>k. M \<le> count e' + k) [0..<length ts]"
    by (simp only: checks_Cons [OF first] checks_in_window [of m' ip e' ts W M, OF stored still])
  also have "\<dots> = map (\<lambda>N. \<not> N \<le> M) [1..<length ts + 2]"
    using pos by (simp add: idx comp_def e'_def not_le less_Suc_eq_le del: upt_Suc)
  finally show ?thesis .
qed

lemma spec_admission_boundary:
  "m ip = Some e \<Longrightarrow> now = start e + W \<Longrightarrow>
   spec_admission_check W M now ip m =
     (M \<le> count e, if count e < M then m(ip \<mapsto> e\<lparr>count := count e + 1\<rparr>) else m)"
  by (simp add: spec_admission_check_def)

lemma spec_admission_admits_iff:
  "\<not> fst (spec_admission_check W M now ip m) \<longleftrightarrow>
     m ip = None \<or> (\<exists>e. m ip = Some e \<and> (now - start e > W \<or> count e < M))"
  by (auto simp: spec_admission_check_def split: option.splits)

text \<open>
  C1. For either limiter (window 60000 ms and at most 5 for webhook-connexion, 300000 ms
  and at most 2 for webhook-avis) an admission check behaves as the specification's rule:
  it admits exactly when the entry is absent, or strictly more than the window has elapsed
  since its start (the entry is then reset to count 1 and start \<open>now\<close>), or the count is
  strictly below the maximum (the count is then incremented). When a request opens a window
  and every later one comes no later than the window's length after it, the \<open>N\<close>-th request
  is admitted exactly when \<open>N \<le> maxCount\<close>. A request exactly at start plus window length
  is still counted in the old window.
\<close>

theorem rate_limiter_admission:
  assumes "(L, W, M) \<in> {(isRateLimited_connexion, 60000, 5), (isRateLimited_avis, 300000, 2)}"
  shows "L now ip m = spec_admission_check W M now ip m \<and>
    (\<not> fst (L now ip m) \<longleftrightarrow>
       m ip = None \<or> (\<exists>e. m ip = Some e \<and> (now - start e > W \<or> count e < M))) \<and>
    ((m ip = None \<or> (\<exists>e. m ip = Some e \<and> t0 - start e > W)) \<and> (\<forall>t\<in>set ts. t - t0 \<le> W) \<longrightarrow>
       fst (checks L ip (t0 # ts) m) = map (\<lambda>N. \<not> N \<le> M) [1..<length ts + 2]) \<and>
    (\<forall>e. m ip = Some e \<and> now = start e + W \<longrightarrow>
       L now ip m = (M \<le> count e, if count e < M then m(ip \<mapsto> e\<lparr>count := count e + 1\<rparr>) else m))"
proof -
  have L: "L = spec_admission_check W M" and M: "1 \<le> M"
    using assms by (auto simp: isRateLimited_connexion_eq isRateLimited_avis_eq)
  show ?thesis
    unfolding L
    using checks_new_window [where m = m and ip = ip and ?t0.0 = t0 and W = W and ts = ts and M = M] M
    by (auto simp only: spec_admission_admits_iff spec_admission_boundary)
qed

theorem rate_limiter_admission_witness:
  "fst (checks isRateLimited_connexion (ascii ''203.0.113.7'')
          [1000, 2000, 3000, 4000, 5000, 61000, 61000] Map.empty) =
     [False, False, False, False, False, True, True] \<and>
   isRateLimited_connexion 61001 (ascii ''203.0.113.7'')
     [ascii ''203.0.113.7'' \<mapsto> \<lparr>count = 5, start = 1000\<rparr>] =
     (False, [ascii ''203.0.113.7'' \<mapsto> \<lparr>count = 1, start = 61001\<rparr>]) \<and>
   isRateLimited_avis 300000 (ascii ''203.0.113.7'')
     [ascii ''203.0.113.7'' \<mapsto> \<lparr>count = 1, start = 0\<rparr>] =
     (False, [ascii ''203.0.113.7'' \<mapsto> \<lparr>count = 2, start = 0\<rparr>])"
  using rate_limiter_admission [where L = isRateLimited_connexion and W = 60000 and M = 5
      and ip = "ascii ''203.0.113.7''" and m = Map.empty and ?t0.0 = 1000
      and ts = "[2000, 3000, 4000, 5000, 61000, 61000]" and now = 0]
    rate_limiter_admission [where L = isRateLimited_connexion and W = 60000 and M = 5
      and ip = "ascii ''203.0.113.7''"
      and m = "[ascii ''203.0.113.7'' \<mapsto> \<lparr>count = 5, start = 1000\<rparr>]"
      and ?t0.0 = 0 and ts = "[]" and now = 61001]
    rate_limiter_admission [where L = isRateLimited_avis and W = 300000 and M = 2
      and ip = "ascii ''203.0.113.7''"
      and m = "[ascii ''203.0.113.7'' \<mapsto> \<lparr>count = 1, start = 0\<rparr>]"
      and ?t0.0 = 0 and ts = "[]" and now = 300000]
  by (simp add: spec_admission_check_def upt_rec eval_nat_numeral)

section \<open>The guards and the forwarder\<close>

lemma ALLOWED_ORIGIN_nonempty: "ALLOWED_ORIGIN \<noteq> []"
  by (simp add: ALLOWED_ORIGIN_def ascii_def)

lemma request_origin_allowed:
  "request_origin ev = ALLOWED_ORIGIN \<longleftrightarrow> origin_header ev = Some ALLOWED_ORIGIN"
  using ALLOWED_ORIGIN_nonempty by (auto simp: request_origin_def split: option.splits)

text \<open>
  C7. A request whose \<open>origin\<close> header is not exactly the allowed origin (absent, empty,
  or differing in any character, case included) gets 403 with body \<open>Forbidden\<close> from
  either handler, whatever its method and body; the rate-limit map is returned as it was
  and nothing is posted.
\<close>

theorem origin_guard:
  assumes "origin_header ev \<noteq> Some ALLOWED_ORIGIN"
  shows "handler_connexion ev en rl =
           \<lparr>outcome = Returns \<lparr>statusCode = 403, body = ascii ''Forbidden'', headers = []\<rparr>,
            rateLimitMap = rl, posted = None\<rparr> \<and>
         handler_avis ev en rl =
           \<lparr>outcome = Returns \<lparr>statusCode = 403, body = ascii ''Forbidden'', headers = []\<rparr>,
            rateLimitMap = rl, posted = None\<rparr>"
  using assms
  by (simp add: handler_connexion_def handler_avis_def request_origin_allowed reply_def)

text \<open>The guard on an origin in capitals, and on a request with no origin at all.\<close>

theorem origin_guard_witness:
  "handler_connexion
     \<lparr>origin_header = Some (ascii ''HTTPS://DEVCENTER.VYRAL-STUDIO.FR''),
      forwarded_for_header = Some (ascii ''203.0.113.7''),
      httpMethod = ascii ''POST'', body_json = Some (Obj [(ascii ''embeds'', Arr [])])\<rparr>
     \<lparr>date_now = 1000, iso_clock = (\<lambda>k. ascii ''2025-01-01T00:00:00.000Z''),
      webhook_url = Some (ascii ''https://discord.com/api/webhooks/1/x''),
      network = FetchStatus 204\<rparr>
     Map.empty =
   \<lparr>outcome = Returns \<lparr>statusCode = 403, body = ascii ''Forbidden'', headers = []\<rparr>,
    rateLimitMap = Map.empty, posted = None\<rparr> \<and>
   handler_avis
     \<lparr>origin_header = None, forwarded_for_header = None,
      httpMethod = ascii ''GET'', body_json = None\<rparr>
     \<lparr>date_now = 1000, iso_clock = (\<lambda>k. ascii ''2025-01-01T00:00:00.000Z''),
      webhook_url = None, network = FetchThrows\<rparr>
     Map.empty =
   \<lparr>outcome = Returns \<lparr>statusCode = 403, body = ascii ''Forbidden'', headers = []\<rparr>,
    rateLimitMap = Map.empty, posted = None\<rparr>"
  using origin_guard [where ev = "\<lparr>origin_header = Some (ascii ''HTTPS://DEVCENTER.VYRAL-STUDIO.FR''),
      forwarded_for_header = Some (ascii ''203.0.113.7''),
      httpMethod = ascii ''POST'', body_json = Some (Obj [(ascii ''embeds'', Arr [])])\<rparr>"
      and en = "\<lparr>date_now = 1000, iso_clock = (\<lambda>k. ascii ''2025-01-01T00:00:00.000Z''),
      webhook_url = Some (ascii ''https://discord.com/api/webhooks/1/x''),
      network = FetchStatus 204\<rparr>" and rl = Map.empty]
    origin_guard [where ev = "\<lparr>origin_header = None, forwarded_for_header = None,
      httpMethod = ascii ''GET'', body_json = None\<rparr>"
      and en = "\<lparr>date_now = 1000, iso_clock = (\<lambda>k. ascii ''2025-01-01T00:00:00.000Z''),
      webhook_url = None, network = FetchThrows\<rparr>" and rl = Map.empty]
  by (simp add: ALLOWED_ORIGIN_def ascii_def)

text \<open>
  C9. When the IP's entry is within its window and its count has reached the maximum, the
  admission check denies and leaves the map as it was; the handler returns 429 with the
  JSON error body and content type, the whole rate-limit map unchanged (so the next request
  of that IP in the window meets the same entry), and posts nothing.
\<close>

theorem rate_limit_deny_atomic:
  assumes "origin_header ev = Some ALLOWED_ORIGIN" and "httpMethod ev = ascii ''POST''"
    and "rl (client_ip ev) = Some e"
  shows "(date_now en - start e \<le> 60000 \<and> 5 \<le> count e \<longrightarrow>
            isRateLimited_connexion (date_now en) (client_ip ev) rl = (True, rl) \<and>
            handler_connexion ev en rl =
              \<lparr>outcome = Returns too_many_requests_connexion, rateLimitMap = rl, posted = None\<rparr>) \<and>
         (date_now en - start e \<le> 300000 \<and> 2 \<le> count e \<longrightarrow>
            isRateLimited_avis (date_now en) (client_ip ev) rl = (True, rl) \<and>
            handler_avis ev en rl =
              \<lparr>outcome = Returns too_many_requests_avis, rateLimitMap = rl, posted = None\<rparr>) \<and>
         statusCode too_many_requests_connexion = 429 \<and>
         statusCode too_many_requests_avis = 429 \<and>
         body too_many_requests_connexion =
           ascii ''{'' @ [0x22] @ ascii ''error'' @ [0x22] @ ascii '':'' @ [0x22] @
           ascii ''Too many requests'' @ [0x22] @ ascii ''}'' \<and>
         body too_many_requests_avis =
           ascii ''{'' @ [0x22] @ ascii ''error'' @ [0x22] @ ascii '':'' @ [0x22] @
           ascii ''Trop d'' @ [0x27] @ ascii ''avis envoy'' @ [0xE9] @
           ascii ''s. Attendez quelques minutes.'' @ [0x22] @ ascii ''}'' \<and>
         headers too_many_requests_connexion = [(ascii ''Content-Type'', ascii ''application/json'')] \<and>
         headers too_many_requests_avis = [(ascii ''Content-Type'', ascii ''application/json'')]"
  using assms
  by (simp add: handler_connexion_def handler_avis_def request_origin_allowed
      isRateLimited_connexion_eq isRateLimited_avis_eq spec_admission_check_def
      too_many_requests_connexion_def too_many_requests_avis_def reply_json_def)

text \<open>A sixth request at exactly window start plus 60000 ms, denied by both handlers.\<close>

theorem rate_limit_deny_atomic_witness:
  "isRateLimited_connexion 61000 (ascii ''203.0.113.7'')
      [ascii ''203.0.113.7'' \<mapsto> \<lparr>count = 5, start = 1000\<rparr>] =
     (True, [ascii ''203.0.113.7'' \<mapsto> \<lparr>count = 5, start = 1000\<rparr>]) \<and>
   handler_connexion
     \<lparr>origin_header = Some ALLOWED_ORIGIN, forwarded_for_header = Some (ascii ''203.0.113.7, 10.0.0.1''),
      httpMethod = ascii ''POST'', body_json = Some (Obj [(ascii ''embeds'', Arr [])])\<rparr>
     \<lparr>date_now = 61000, iso_clock = (\<lambda>k. ascii ''2025-01-01T00:00:00.000Z''),
      webhook_url = Some (ascii ''https://discord.com/api/webhooks/1/x''),
      network = FetchStatus 204\<rparr>
     [ascii ''203.0.113.7'' \<mapsto> \<lparr>count = 5, start = 1000\<rparr>] =
   \<lparr>outcome = Returns too_many_requests_connexion,
    rateLimitMap = [ascii ''203.0.113.7'' \<mapsto> \<lparr>count = 5, start = 1000\<rparr>], posted = None\<rparr> \<and>
   handler_avis
     \<lparr>origin_header = Some ALLOWED_ORIGIN, forwarded_for_header = Some (ascii ''203.0.113.7, 10.0.0.1''),
      httpMethod = ascii ''POST'', body_json = Some (Obj [(ascii ''embeds'', Arr [])])\<rparr>
     \<lparr>date_now = 61000, iso_clock = (\<lambda>k. ascii ''2025-01-01T00:00:00.000Z''),
      webhook_url = Some (ascii ''https://discord.com/api/webhooks/1/x''),
      network = FetchStatus 204\<rparr>
     [ascii ''203.0.113.7'' \<mapsto> \<lparr>count = 5, start = 1000\<rparr>] =
   \<lparr>outcome = Returns too_many_requests_avis,
    rateLimitMap = [ascii ''203.0.113.7'' \<mapsto> \<lparr>count = 5, start = 1000\<rparr>], posted = None\<rparr>"
  using rate_limit_deny_atomic [where ev = "\<lparr>origin_header = Some ALLOWED_ORIGIN,
      forwarded_for_header = Some (ascii ''203.0.113.7, 10.0.0.1''),
      httpMethod = ascii ''POST'', body_json = Some (Obj [(ascii ''embeds'', Arr [])])\<rparr>"
      and en = "\<lparr>date_now = 61000, iso_clock = (\<lambda>k. ascii ''2025-01-01T00:00:00.000Z''),
      webhook_url = Some (ascii ''https://discord.com/api/webhooks/1/x''),
      network = FetchStatus 204\<rparr>"
      and rl = "[ascii ''203.0.113.7'' \<mapsto> \<lparr>count = 5, start = 1000\<rparr>]"
      and e = "\<lparr>count = 5, start = 1000\<rparr>"]
  by (simp add: client_ip_def ascii_def)

lemma send_to_discord_cases:
  "send_to_discord FetchThrows = \<lparr>statusCode = 502, body = ascii ''Network error'', headers = []\<rparr>"
  "\<not> response_ok st \<Longrightarrow> send_to_discord (FetchStatus st) =
     \<lparr>statusCode = 502, body = ascii ''Discord webhook failed'', headers = []\<rparr>"
  "response_ok st \<Longrightarrow> send_to_discord (FetchStatus st) = success_response"
  by (simp_all add: send_to_discord_def reply_def)

text \<open>
  C6. For a request that has passed the origin, method, rate-limit and payload checks (and
  whose payload has been sanitised): with the webhook URL absent or empty the handler
  returns 500 and posts nothing; otherwise it posts the serialised payload to the URL once
  and answers with what the \<open>try\<close> block gives: 502 when \<open>fetch\<close> throws, 502 when the
  response status is outside 200 to 299, and otherwise 200 with body \<open>{"success":true}\<close>
  and the allowed origin in \<open>Access-Control-Allow-Origin\<close>. In webhook-avis the URL is
  read before the payload is built.
\<close>

theorem forwarder_error_mapping:
  assumes "origin_header ev = Some ALLOWED_ORIGIN" and "httpMethod ev = ascii ''POST''"
    and "body_json ev = Some payload"
  shows
    "(isRateLimited_connexion (date_now en) (client_ip ev) rl = (False, rl') \<and>
      validate_connexion payload = Next embeds \<and>
      safePayload_connexion (iso_clock en) embeds = Inr safePayload \<longrightarrow>
        (webhook_url en = None \<or> webhook_url en = Some [] \<longrightarrow>
           handler_connexion ev en rl =
             \<lparr>outcome = Returns \<lparr>statusCode = 500, body = ascii ''Webhook not configured'',
                                   headers = []\<rparr>,
              rateLimitMap = rl', posted = None\<rparr>) \<and>
        (\<forall>url. webhook_url en = Some url \<and> url \<noteq> [] \<longrightarrow>
           handler_connexion ev en rl =
             \<lparr>outcome = Returns (send_to_discord (network en)), rateLimitMap = rl',
              posted = Some (url, JSON_stringify safePayload)\<rparr>)) \<and>
     (isRateLimited_avis (date_now en) (client_ip ev) rl = (False, rl') \<and>
      validate_avis payload = Next a \<longrightarrow>
        (webhook_url en = None \<or> webhook_url en = Some [] \<longrightarrow>
           handler_avis ev en rl =
             \<lparr>outcome = Returns \<lparr>statusCode = 500, body = ascii ''Webhook not configured'',
                                   headers = []\<rparr>,
              rateLimitMap = rl', posted = None\<rparr>) \<and>
        (\<forall>url safePayload. webhook_url en = Some url \<and> url \<noteq> [] \<and>
           safePayload_avis (iso_clock en 0) a = Inr safePayload \<longrightarrow>
           handler_avis ev en rl =
             \<lparr>outcome = Returns (send_to_discord (network en)), rateLimitMap = rl',
              posted = Some (url, JSON_stringify safePayload)\<rparr>)) \<and>
     send_to_discord FetchThrows =
       \<lparr>statusCode = 502, body = ascii ''Network error'', headers = []\<rparr> \<and>
     (\<forall>st. \<not> (200 \<le> st \<and> st \<le> 299) \<longrightarrow>
        send_to_discord (FetchStatus st) =
          \<lparr>statusCode = 502, body = ascii ''Discord webhook failed'', headers = []\<rparr>) \<and>
     (\<forall>st. 200 \<le> st \<and> st \<le> 299 \<longrightarrow>
        send_to_discord (FetchStatus st) =
          \<lparr>statusCode = 200,
           body = ascii ''{'' @ [0x22] @ ascii ''success'' @ [0x22] @ ascii '':true}'',
           headers = [(ascii ''Content-Type'', ascii ''application/json''),
                      (ascii ''Access-Control-Allow-Origin'', ALLOWED_ORIGIN)]\<rparr>)"
  using assms
  by (auto simp: handler_connexion_def handler_avis_def request_origin_allowed reply_def
      send_to_discord_cases response_ok_def success_response_def)

text \<open>An empty URL, a downstream 404, and a review with no URL configured.\<close>

theorem forwarder_error_mapping_witness:
  "handler_connexion
     \<lparr>origin_header = Some ALLOWED_ORIGIN, forwarded_for_header = None,
      httpMethod = ascii ''POST'', body_json = Some (Obj [(ascii ''embeds'', Arr [])])\<rparr>
     \<lparr>date_now = 1000, iso_clock = (\<lambda>k. ascii ''2025-01-01T00:00:00.000Z''),
      webhook_url = Some [], network = FetchStatus 204\<rparr>
     Map.empty =
   \<lparr>outcome = Returns \<lparr>statusCode = 500, body = ascii ''Webhook not configured'', headers = []\<rparr>,
    rateLimitMap = [ascii ''unknown'' \<mapsto> \<lparr>count = 1, start = 1000\<rparr>], posted = None\<rparr> \<and>
   handler_connexion
     \<lparr>origin_header = Some ALLOWED_ORIGIN, forwarded_for_header = None,
      httpMethod = ascii ''POST'', body_json = Some (Obj [(ascii ''embeds'', Arr [])])\<rparr>
     \<lparr>date_now = 1000, iso_clock = (\<lambda>k. ascii ''2025-01-01T00:00:00.000Z''),
      webhook_url = Some (ascii ''https://discord.com/api/webhooks/1/x''),
      network = FetchStatus 404\<rparr>
     Map.empty =
   \<lparr>outcome = Returns \<lparr>statusCode = 502, body = ascii ''Discord webhook failed'', headers = []\<rparr>,
    rateLimitMap = [ascii ''unknown'' \<mapsto> \<lparr>count = 1, start = 1000\<rparr>],
    posted = Some (ascii ''https://discord.com/api/webhooks/1/x'',
                   Obj [(ascii ''embeds'', Arr [])])\<rparr> \<and>
   handler_avis
     \<lparr>origin_header = Some ALLOWED_ORIGIN, forwarded_for_header = None,
      httpMethod = ascii ''POST'',
      body_json = Some (Obj [(ascii ''username'', Str (ascii ''Ana'')),
        (ascii ''userId'', Str (ascii ''123456789012345'')),
        (ascii ''rating'', Num (ascii ''3'')),
        (ascii ''comment'', Str (ascii ''Super travail''))])\<rparr>
     \<lparr>date_now = 1000, iso_clock = (\<lambda>k. ascii ''2025-01-01T00:00:00.000Z''),
      webhook_url = None, network = FetchThrows\<rparr>
     Map.empty =
   \<lparr>outcome = Returns \<lparr>statusCode = 500, body = ascii ''Webhook not configured'', headers = []\<rparr>,
    rateLimitMap = [ascii ''unknown'' \<mapsto> \<lparr>count = 1, start = 1000\<rparr>], posted = None\<rparr>"
  using
    forwarder_error_mapping [where ev = "\<lparr>origin_header = Some ALLOWED_ORIGIN,
        forwarded_for_header = None, httpMethod = ascii ''POST'',
        body_json = Some (Obj [(ascii ''embeds'', Arr [])])\<rparr>"
      and en = "\<lparr>date_now = 1000, iso_clock = (\<lambda>k. ascii ''2025-01-01T00:00:00.000Z''),
        webhook_url = Some [], network = FetchStatus 204\<rparr>"
      and rl = Map.empty and payload = "Obj [(ascii ''embeds'', Arr [])]"
      and rl' = "[ascii ''unknown'' \<mapsto> \<lparr>count = 1, start = 1000\<rparr>]"
      and embeds = "[]" and safePayload = "Obj [(ascii ''embeds'', Arr [])]"]
    forwarder_error_mapping [where ev = "\<lparr>origin_header = Some ALLOWED_ORIGIN,
        forwarded_for_header = None, httpMethod = ascii ''POST'',
        body_json = Some (Obj [(ascii ''embeds'', Arr [])])\<rparr>"
      and en = "\<lparr>date_now = 1000, iso_clock = (\<lambda>k. ascii ''2025-01-01T00:00:00.000Z''),
        webhook_url = Some (ascii ''https://discord.com/api/webhooks/1/x''),
        network = FetchStatus 404\<rparr>"
      and rl = Map.empty and payload = "Obj [(ascii ''embeds'', Arr [])]"
      and rl' = "[ascii ''unknown'' \<mapsto> \<lparr>count = 1, start = 1000\<rparr>]"
      and embeds = "[]" and safePayload = "Obj [(ascii ''embeds'', Arr [])]"]
    forwarder_error_mapping [where ev = "\<lparr>origin_header = Some ALLOWED_ORIGIN,
        forwarded_for_header = None, httpMethod = ascii ''POST'',
        body_json = Some (Obj [(ascii ''username'', Str (ascii ''Ana'')),
          (ascii ''userId'', Str (ascii ''123456789012345'')),
          (ascii ''rating'', Num (ascii ''3'')),
          (ascii ''comment'', Str (ascii ''Super travail''))])\<rparr>"
      and en = "\<lparr>date_now = 1000, iso_clock = (\<lambda>k. ascii ''2025-01-01T00:00:00.000Z''),
        webhook_url = None, network = FetchThrows\<rparr>"
      and rl = Map.empty
      and payload = "Obj [(ascii ''username'', Str (ascii ''Ana'')),
          (ascii ''userId'', Str (ascii ''123456789012345'')),
          (ascii ''rating'', Num (ascii ''3'')),
          (ascii ''comment'', Str (ascii ''Super travail''))]"
      and rl' = "[ascii ''unknown'' \<mapsto> \<lparr>count = 1, start = 1000\<rparr>]"
      and a = "\<lparr>avis_username = Str (ascii ''Ana''),
          avis_userId = Str (ascii ''123456789012345''), avis_rating = 3,
          avis_comment = ascii ''Super travail'', avis_avatarUrl = Undefined\<rparr>"]
  by (simp add: isRateLimited_connexion_def isRateLimited_avis_def client_ip_def
      RATE_LIMIT_WINDOW_MS_connexion_def RATE_LIMIT_MAX_connexion_def
      RATE_LIMIT_WINDOW_MS_avis_def RATE_LIMIT_MAX_avis_def
      validate_connexion_def safePayload_connexion_def enumerate_eq_zip
      validate_avis_def parseInt_def is_white_space_def digit_value_def trim_def
      test_digits_15_20_def slice0_def ascii_def)

lemma validate_connexion_Reply:
  "validate_connexion p = Reply r \<Longrightarrow> statusCode r = 400"
  by (auto simp: validate_connexion_def reply_def split: sum.splits if_splits jsval.splits)

lemma validate_avis_Reply:
  "validate_avis p = Reply r \<Longrightarrow> statusCode r = 400"
  by (auto simp: validate_avis_def reply_def Let_def
      split: sum.splits if_splits option.splits prod.splits)

text \<open>
  The order of the checks itself: a 500 response implies that the request passed the
  origin, method and rate-limit checks, that its body parsed and passed the payload
  validation, and that the URL is absent or empty; a body that does not parse or that a
  validation check rejects gets 400, whatever the URL; and unless the validation accepts
  the body, the whole result is the same for every value of the URL.
\<close>

lemma validation_before_configuration:
  "(\<forall>r. outcome (handler_connexion ev en rl) = Returns r \<and> statusCode r = 500 \<longrightarrow>
      origin_header ev = Some ALLOWED_ORIGIN \<and> httpMethod ev = ascii ''POST'' \<and>
      \<not> fst (isRateLimited_connexion (date_now en) (client_ip ev) rl) \<and>
      (\<exists>payload embeds. body_json ev = Some payload \<and> validate_connexion payload = Next embeds) \<and>
      (webhook_url en = None \<or> webhook_url en = Some [])) \<and>
   (\<forall>r. outcome (handler_avis ev en rl) = Returns r \<and> statusCode r = 500 \<longrightarrow>
      origin_header ev = Some ALLOWED_ORIGIN \<and> httpMethod ev = ascii ''POST'' \<and>
      \<not> fst (isRateLimited_avis (date_now en) (client_ip ev) rl) \<and>
      (\<exists>payload a. body_json ev = Some payload \<and> validate_avis payload = Next a) \<and>
      (webhook_url en = None \<or> webhook_url en = Some [])) \<and>
   (origin_header ev = Some ALLOWED_ORIGIN \<and> httpMethod ev = ascii ''POST'' \<and>
    \<not> fst (isRateLimited_connexion (date_now en) (client_ip ev) rl) \<and>
    (body_json ev = None \<or> (\<exists>payload r. body_json ev = Some payload \<and> validate_connexion payload = Reply r)) \<longrightarrow>
      (\<exists>r. outcome (handler_connexion ev en rl) = Returns r \<and> statusCode r = 400)) \<and>
   (origin_header ev = Some ALLOWED_ORIGIN \<and> httpMethod ev = ascii ''POST'' \<and>
    \<not> fst (isRateLimited_avis (date_now en) (client_ip ev) rl) \<and>
    (body_json ev = None \<or> (\<exists>payload r. body_json ev = Some payload \<and> validate_avis payload = Reply r)) \<longrightarrow>
      (\<exists>r. outcome (handler_avis ev en rl) = Returns r \<and> statusCode r = 400)) \<and>
   ((\<forall>payload embeds. body_json ev = Some payload \<longrightarrow> validate_connexion payload \<noteq> Next embeds) \<longrightarrow>
      handler_connexion ev (en\<lparr>webhook_url := u\<rparr>) rl = handler_connexion ev en rl) \<and>
   ((\<forall>payload a. body_json ev = Some payload \<longrightarrow> validate_avis payload \<noteq> Next a) \<longrightarrow>
      handler_avis ev (en\<lparr>webhook_url := u\<rparr>) rl = handler_avis ev en rl)"
proof (intro conjI allI impI)
  fix r assume "outcome (handler_connexion ev en rl) = Returns r \<and> statusCode r = 500"
  then show "origin_header ev = Some ALLOWED_ORIGIN" "httpMethod ev = ascii ''POST''"
    "\<not> fst (isRateLimited_connexion (date_now en) (client_ip ev) rl)"
    "\<exists>payload embeds. body_json ev = Some payload \<and> validate_connexion payload = Next embeds"
    "webhook_url en = None \<or> webhook_url en = Some []"
    by (auto simp: handler_connexion_def request_origin_allowed reply_def reply_json_def
        too_many_requests_connexion_def send_to_discord_def success_response_def
        dest: validate_connexion_Reply
        split: if_splits prod.splits option.splits step.splits sum.splits fetch_outcome.splits)
next
  fix r assume "outcome (handler_avis ev en rl) = Returns r \<and> statusCode r = 500"
  then show "origin_header ev = Some ALLOWED_ORIGIN" "httpMethod ev = ascii ''POST''"
    "\<not> fst (isRateLimited_avis (date_now en) (client_ip ev) rl)"
    "\<exists>payload a. body_json ev = Some payload \<and> validate_avis payload = Next a"
    "webhook_url en = None \<or> webhook_url en = Some []"
    by (auto simp: handler_avis_def request_origin_allowed reply_def reply_json_def
        too_many_requests_avis_def send_to_discord_def success_response_def
        dest: validate_avis_Reply
        split: if_splits prod.splits option.splits step.splits sum.splits fetch_outcome.splits)
next
  assume "origin_header ev = Some ALLOWED_ORIGIN \<and> httpMethod ev = ascii ''POST'' \<and>
    \<not> fst (isRateLimited_connexion (date_now en) (client_ip ev) rl) \<and>
    (body_json ev = None \<or> (\<exists>payload r. body_json ev = Some payload \<and> validate_connexion payload = Reply r))"
  then show "\<exists>r. outcome (handler_connexion ev en rl) = Returns r \<and> statusCode r = 400"
    by (auto simp: handler_connexion_def request_origin_allowed reply_def
        dest: validate_connexion_Reply split: prod.splits)
next
  assume "origin_header ev = Some ALLOWED_ORIGIN \<and> httpMethod ev = ascii ''POST'' \<and>
    \<not> fst (isRateLimited_avis (date_now en) (client_ip ev) rl) \<and>
    (body_json ev = None \<or> (\<exists>payload r. body_json ev = Some payload \<and> validate_avis payload = Reply r))"
  then show "\<exists>r. outcome (handler_avis ev en rl) = Returns r \<and> statusCode r = 400"
    by (auto simp: handler_avis_def request_origin_allowed reply_def
        dest: validate_avis_Reply split: prod.splits)
next
  assume "\<forall>payload embeds. body_json ev = Some payload \<longrightarrow> validate_connexion payload \<noteq> Next embeds"
  then show "handler_connexion ev (en\<lparr>webhook_url := u\<rparr>) rl = handler_connexion ev en rl"
    by (auto simp: handler_connexion_def split: prod.splits option.splits step.splits)
next
  assume "\<forall>payload a. body_json ev = Some payload \<longrightarrow> validate_avis payload \<noteq> Next a"
  then show "handler_avis ev (en\<lparr>webhook_url := u\<rparr>) rl = handler_avis ev en rl"
    by (auto simp: handler_avis_def split: prod.splits option.splits step.splits)
qed

text \<open>A wrong-shaped connection payload and a rating of 6, both with no URL configured.\<close>

lemma validation_before_configuration_example:
  "(\<exists>r. outcome (handler_connexion
       \<lparr>origin_header = Some ALLOWED_ORIGIN, forwarded_for_header = None,
        httpMethod = ascii ''POST'', body_json = Some (Obj [(ascii ''embeds'', Str (ascii ''x''))])\<rparr>
       \<lparr>date_now = 1000, iso_clock = (\<lambda>k. ascii ''2025-01-01T00:00:00.000Z''),
        webhook_url = None, network = FetchStatus 204\<rparr>
       Map.empty) = Returns r \<and> statusCode r = 400) \<and>
   (\<exists>r. outcome (handler_avis
       \<lparr>origin_header = Some ALLOWED_ORIGIN, forwarded_for_header = None,
        httpMethod = ascii ''POST'',
        body_json = Some (Obj [(ascii ''username'', Str (ascii ''Ana'')),
          (ascii ''userId'', Str (ascii ''123456789012345'')),
          (ascii ''rating'', Num (ascii ''6'')),
          (ascii ''comment'', Str (ascii ''Super travail''))])\<rparr>
       \<lparr>date_now = 1000, iso_clock = (\<lambda>k. ascii ''2025-01-01T00:00:00.000Z''),
        webhook_url = None, network = FetchStatus 204\<rparr>
       Map.empty) = Returns r \<and> statusCode r = 400)"
  using
    validation_before_configuration [where ev = "\<lparr>origin_header = Some ALLOWED_ORIGIN,
        forwarded_for_header = None, httpMethod = ascii ''POST'',
        body_json = Some (Obj [(ascii ''embeds'', Str (ascii ''x''))])\<rparr>"
      and en = "\<lparr>date_now = 1000, iso_clock = (\<lambda>k. ascii ''2025-01-01T00:00:00.000Z''),
        webhook_url = None, network = FetchStatus 204\<rparr>" and rl = Map.empty]
    validation_before_configuration [where ev = "\<lparr>origin_header = Some ALLOWED_ORIGIN,
        forwarded_for_header = None, httpMethod = ascii ''POST'',
        body_json = Some (Obj [(ascii ''username'', Str (ascii ''Ana'')),
          (ascii ''userId'', Str (ascii ''123456789012345'')),
          (ascii ''rating'', Num (ascii ''6'')),
          (ascii ''comment'', Str (ascii ''Super travail''))])\<rparr>"
      and en = "\<lparr>date_now = 1000, iso_clock = (\<lambda>k. ascii ''2025-01-01T00:00:00.000Z''),
        webhook_url = None, network = FetchStatus 204\<rparr>" and rl = Map.empty]
  by (simp add: isRateLimited_connexion_def isRateLimited_avis_def client_ip_def
      RATE_LIMIT_WINDOW_MS_connexion_def RATE_LIMIT_MAX_connexion_def
      RATE_LIMIT_WINDOW_MS_avis_def RATE_LIMIT_MAX_avis_def
      validate_connexion_def validate_avis_def parseInt_def is_white_space_def digit_value_def
      ascii_def)

text \<open>
  C8. The body \<open>null\<close> parses as JSON and has neither an \<open>embeds\<close> array nor any review
  field, yet neither handler returns 400: reading a property of \<open>null\<close> throws a TypeError
  outside the \<open>try\<close> block, after the request has been counted by the rate limiter.
\<close>

theorem null_body_throws:
  "handler_connexion
     \<lparr>origin_header = Some ALLOWED_ORIGIN, forwarded_for_header = None,
      httpMethod = ascii ''POST'', body_json = Some Null\<rparr> en Map.empty =
   \<lparr>outcome = Throws TypeError,
    rateLimitMap = [ascii ''unknown'' \<mapsto> \<lparr>count = 1, start = date_now en\<rparr>],
    posted = None\<rparr> \<and>
   handler_avis
     \<lparr>origin_header = Some ALLOWED_ORIGIN, forwarded_for_header = None,
      httpMethod = ascii ''POST'', body_json = Some Null\<rparr> en Map.empty =
   \<lparr>outcome = Throws TypeError,
    rateLimitMap = [ascii ''unknown'' \<mapsto> \<lparr>count = 1, start = date_now en\<rparr>],
    posted = None\<rparr>"
  by (simp add: handler_connexion_def handler_avis_def request_origin_allowed
      isRateLimited_connexion_def isRateLimited_avis_def client_ip_def
      RATE_LIMIT_WINDOW_MS_connexion_def RATE_LIMIT_MAX_connexion_def
      RATE_LIMIT_WINDOW_MS_avis_def RATE_LIMIT_MAX_avis_def
      validate_connexion_def validate_avis_def)

text \<open>For every other body the 400 is returned: a body that does not parse, a parsed value
  other than \<open>null\<close> without an \<open>embeds\<close> array, or with a required review field falsy.\<close>

lemma malformed_body_rejected:
  assumes "origin_header ev = Some ALLOWED_ORIGIN" and "httpMethod ev = ascii ''POST''"
  shows
    "\<not> fst (isRateLimited_connexion (date_now en) (client_ip ev) rl) \<Longrightarrow> body_json ev = None \<Longrightarrow>
       outcome (handler_connexion ev en rl) = Returns (reply 400 (ascii ''Invalid JSON''))"
    "\<not> fst (isRateLimited_avis (date_now en) (client_ip ev) rl) \<Longrightarrow> body_json ev = None \<Longrightarrow>
       outcome (handler_avis ev en rl) = Returns (reply 400 (ascii ''Invalid JSON''))"
    "\<not> fst (isRateLimited_connexion (date_now en) (client_ip ev) rl) \<Longrightarrow>
     body_json ev = Some payload \<Longrightarrow> payload \<noteq> Null \<Longrightarrow> payload \<noteq> Undefined \<Longrightarrow>
     \<not> isArray (get_prop_opt payload (ascii ''embeds'')) \<Longrightarrow>
       outcome (handler_connexion ev en rl) =
         Returns (reply 400 (ascii ''Invalid payload structure''))"
    "\<not> fst (isRateLimited_avis (date_now en) (client_ip ev) rl) \<Longrightarrow>
     body_json ev = Some payload \<Longrightarrow> payload \<noteq> Null \<Longrightarrow> payload \<noteq> Undefined \<Longrightarrow>
     \<not> truthy (get_prop_opt payload (ascii ''username'')) \<or>
     \<not> truthy (get_prop_opt payload (ascii ''userId'')) \<or>
     \<not> truthy (get_prop_opt payload (ascii ''rating'')) \<or>
     \<not> truthy (get_prop_opt payload (ascii ''comment'')) \<Longrightarrow>
       outcome (handler_avis ev en rl) = Returns (reply 400 (ascii ''Missing fields''))"
  using assms
  by (cases payload; auto simp: handler_connexion_def handler_avis_def request_origin_allowed
      validate_connexion_def validate_avis_def split: prod.splits)+

text \<open>
  C10. With the webhook URL not configured, a body that fails validation does not always
  get the corresponding 400: the body \<open>null\<close>, and a review whose rating is an object with an
  own property \<open>toString\<close>, make the validation itself throw a TypeError that nothing
  catches, so the handler returns no response at all (neither 400 nor 500).
\<close>

theorem unconfigured_invalid_body_throws:
  "handler_connexion (site_post Null) (example_env\<lparr>webhook_url := None\<rparr>) Map.empty =
     \<lparr>outcome = Throws TypeError,
      rateLimitMap = [ascii ''203.0.113.7'' \<mapsto> \<lparr>count = 1, start = 1000\<rparr>],
      posted = None\<rparr> \<and>
   handler_avis (site_post Null) (example_env\<lparr>webhook_url := None\<rparr>) Map.empty =
     \<lparr>outcome = Throws TypeError,
      rateLimitMap = [ascii ''203.0.113.7'' \<mapsto> \<lparr>count = 1, start = 1000\<rparr>],
      posted = None\<rparr> \<and>
   handler_avis
     (site_post (Obj [(ascii ''username'', Str (ascii ''Ana'')),
        (ascii ''userId'', Str (ascii ''123456789012345'')),
        (ascii ''rating'', Obj [(ascii ''toString'', Num (ascii ''1''))]),
        (ascii ''comment'', Str (ascii ''Super travail''))]))
     (example_env\<lparr>webhook_url := None\<rparr>) Map.empty =
     \<lparr>outcome = Throws TypeError,
      rateLimitMap = [ascii ''203.0.113.7'' \<mapsto> \<lparr>count = 1, start = 1000\<rparr>],
      posted = None\<rparr>"
  by (simp add: handler_connexion_def handler_avis_def site_post_def example_env_def
      request_origin_allowed isRateLimited_connexion_def isRateLimited_avis_def
      RATE_LIMIT_WINDOW_MS_connexion_def RATE_LIMIT_MAX_connexion_def
      RATE_LIMIT_WINDOW_MS_avis_def RATE_LIMIT_MAX_avis_def
      client_ip_def validate_connexion_def validate_avis_def ascii_def)

section \<open>Sanitisation in webhook-connexion\<close>

lemma of_char_less_256: "(of_char c :: nat) < 256"
proof -
  have "(of_char c :: nat) mod 256 < 256" by simp
  then show ?thesis by (simp only: of_char_mod_256)
qed

lemma code_unit_of_char_eq: "(of_nat (of_char c) :: code_unit) = of_nat (of_char d) \<longleftrightarrow> c = d"
proof -
  have "take_bit 16 (of_char c :: nat) = of_char c" for c :: char
  proof (rule take_bit_nat_eq_self)
    have "(256::nat) \<le> 2 ^ 16" by simp
    with of_char_less_256 [of c] show "(of_char c :: nat) < 2 ^ 16" by (rule less_le_trans)
  qed
  then show ?thesis
    by (auto simp: word_of_nat_eq_iff)
qed

lemma ascii_eq_iff: "ascii s = ascii t \<longleftrightarrow> s = t"
  unfolding ascii_def
  by (rule inj_eq) (rule inj_mapI, rule injI, simp add: code_unit_of_char_eq)

lemma ascii_empty_iff: "ascii s = [] \<longleftrightarrow> s = []"
  by (simp add: ascii_def)

lemma bind_js_Inr: "bind_js m f = Inr y \<longleftrightarrow> (\<exists>x. m = Inr x \<and> f x = Inr y)"
  by (cases m) auto

lemma get_prop_Inr: "get_prop v k = Inr x \<Longrightarrow> x = get_prop_opt v k"
  by (cases v) auto

lemma map_js_Inr: "map_js f xs = Inr ys \<longleftrightarrow> list_all2 (\<lambda>x y. f x = Inr y) xs ys"
proof (induction xs arbitrary: ys)
  case Nil
  then show ?case by auto
next
  case (Cons x xs)
  then show ?case by (cases ys) (auto simp: bind_js_Inr)
qed

lemma sanitize_field_shape:
  assumes "sanitize_field f = Inr y"
  shows "\<exists>n v. to_string (or_empty (get_prop_opt f (ascii ''name''))) = Inr n \<and>
           to_string (or_empty (get_prop_opt f (ascii ''value''))) = Inr v \<and>
           y = Obj [(ascii ''name'', Str (take 256 n)), (ascii ''value'', Str (take 1024 v)),
                    (ascii ''inline'', Bool (truthy (get_prop_opt f (ascii ''inline''))))]"
  using assms unfolding sanitize_field_def bind_js_Inr slice0_def
  by (auto dest!: get_prop_Inr)

lemma stringify_field:
  "sanitize_field f = Inr y \<Longrightarrow> JSON_stringify y = y"
  by (drule sanitize_field_shape) auto

lemma stringify_fields:
  "list_all2 (\<lambda>x y. sanitize_field x = Inr y) xs ys \<Longrightarrow> stringify_elems ys = ys"
proof (induction rule: list_all2_induct)
  case Nil
  then show ?case by simp
next
  case (Cons x xs y ys)
  from Cons.hyps(1) have "y \<noteq> Undefined" "JSON_stringify y = y"
    by (auto dest: sanitize_field_shape stringify_field)
  with Cons.IH show ?case by simp
qed

lemma sanitize_embed_shape:
  assumes "sanitize_embed ts e = Inr out"
  shows "\<exists>t d u fs.
     to_string (or_empty (get_prop_opt e (ascii ''title''))) = Inr t \<and>
     to_string (or_empty (get_prop_opt e (ascii ''description''))) = Inr d \<and>
     (truthy (get_prop_opt (get_prop_opt e (ascii ''thumbnail'')) (ascii ''url'')) \<longrightarrow>
        to_string (get_prop_opt (get_prop_opt e (ascii ''thumbnail'')) (ascii ''url'')) = Inr u) \<and>
     list_all2 (\<lambda>x y. sanitize_field x = Inr y)
       (case get_prop_opt e (ascii ''fields'') of Arr xs \<Rightarrow> take 25 xs | _ \<Rightarrow> []) fs \<and>
     JSON_stringify out =
       Obj ([(ascii ''title'', Str (take 256 t)),
             (ascii ''description'', Str (take 4096 d)),
             (ascii ''color'',
                (case get_prop_opt e (ascii ''color'') of
                   Num r \<Rightarrow> if non_finite r then Null else Num r
                 | _ \<Rightarrow> Num (ascii ''0'')))] @
            (if truthy (get_prop_opt (get_prop_opt e (ascii ''thumbnail'')) (ascii ''url''))
             then [(ascii ''thumbnail'', Obj [(ascii ''url'', Str (take 512 u))])] else []) @
            [(ascii ''fields'', Arr fs), (ascii ''timestamp'', Str ts)])"
proof -
  from assms obtain t d thumb sf where
    t: "to_string (or_empty (get_prop_opt e (ascii ''title''))) = Inr t" and
    d: "to_string (or_empty (get_prop_opt e (ascii ''description''))) = Inr d" and
    thumb: "(if truthy (get_prop_opt (get_prop_opt e (ascii ''thumbnail'')) (ascii ''url''))
             then bind_js (to_string (get_prop_opt (get_prop_opt e (ascii ''thumbnail'')) (ascii ''url'')))
                    (\<lambda>url_s. Inr (Obj [(ascii ''url'', Str (slice0 512 url_s))]))
             else Inr Undefined) = Inr thumb" and
    sf: "(case get_prop_opt e (ascii ''fields'') of
            Arr fs \<Rightarrow> bind_js (map_js sanitize_field (slice0 25 fs)) (\<lambda>ys. Inr (Arr ys))
          | _ \<Rightarrow> Inr (Arr [])) = Inr sf" and
    out: "out = Obj [(ascii ''title'', Str (slice0 256 t)),
               (ascii ''description'', Str (slice0 4096 d)),
               (ascii ''color'', if is_number (get_prop_opt e (ascii ''color''))
                  then get_prop_opt e (ascii ''color'') else Num (ascii ''0'')),
               (ascii ''thumbnail'', thumb),
               (ascii ''fields'', sf),
               (ascii ''timestamp'', Str ts)]"
    unfolding sanitize_embed_def bind_js_Inr by (auto dest!: get_prop_Inr)
  obtain fs where fs: "sf = Arr fs"
    "list_all2 (\<lambda>x y. sanitize_field x = Inr y)
       (case get_prop_opt e (ascii ''fields'') of Arr xs \<Rightarrow> take 25 xs | _ \<Rightarrow> []) fs"
    using sf by (auto simp: bind_js_Inr map_js_Inr slice0_def split: jsval.splits)
  have sfs: "stringify_elems fs = fs" using fs(2) by (rule stringify_fields)
  have col: "JSON_stringify (if is_number (get_prop_opt e (ascii ''color''))
                  then get_prop_opt e (ascii ''color'') else Num (ascii ''0'')) =
             (case get_prop_opt e (ascii ''color'') of
                Num r \<Rightarrow> if non_finite r then Null else Num r
              | _ \<Rightarrow> Num (ascii ''0''))"
       "(if is_number (get_prop_opt e (ascii ''color''))
                  then get_prop_opt e (ascii ''color'') else Num (ascii ''0'')) \<noteq> Undefined"
    by (cases "get_prop_opt e (ascii ''color'')"; simp add: non_finite_def ascii_eq_iff)+
  show ?thesis
  proof (cases "truthy (get_prop_opt (get_prop_opt e (ascii ''thumbnail'')) (ascii ''url''))")
    case True
    with thumb obtain u where
      u: "to_string (get_prop_opt (get_prop_opt e (ascii ''thumbnail'')) (ascii ''url'')) = Inr u"
      and th: "thumb = Obj [(ascii ''url'', Str (take 512 u))]"
      by (auto simp: bind_js_Inr slice0_def)
    show ?thesis
      apply (rule exI [of _ t], rule exI [of _ d], rule exI [of _ u], rule exI [of _ fs])
      using t d u fs(2) True col by (simp add: out th fs(1) sfs slice0_def)
  next
    case False
    with thumb have th: "thumb = Undefined" by simp
    show ?thesis
      apply (rule exI [of _ t], rule exI [of _ d], rule exI [of _ "[]"], rule exI [of _ fs])
      using t d fs(2) False col by (simp add: out th fs(1) sfs slice0_def)
  qed
qed

lemma stringify_elems_map:
  "stringify_elems xs = map (\<lambda>x. if x = Undefined then Null else JSON_stringify x) xs"
  by (induction xs) auto

lemma list_all2_enumerate:
  "list_all2 P (List.enumerate 0 xs) ys \<Longrightarrow>
   length ys = length xs \<and> (\<forall>k<length xs. P (k, xs ! k) (ys ! k))"
  by (auto simp: list_all2_conv_all_nth nth_enumerate_eq)

lemma validate_connexion_Next:
  "validate_connexion payload = Next embeds \<Longrightarrow> get_prop_opt payload (ascii ''embeds'') = Arr embeds"
  by (auto simp: validate_connexion_def split: sum.splits if_splits jsval.splits dest!: get_prop_Inr)

lemma sanitize_embed_defined: "sanitize_embed ts e = Inr out \<Longrightarrow> out \<noteq> Undefined"
  by (auto simp: sanitize_embed_def bind_js_Inr)

lemma connexion_posted:
  assumes "posted (handler_connexion ev en rl) = Some (url, doc)"
  shows "\<exists>payload ins outs.
     body_json ev = Some payload \<and> get_prop_opt payload (ascii ''embeds'') = Arr ins \<and>
     doc = Obj [(ascii ''embeds'', Arr outs)] \<and> length outs = length ins \<and>
     (\<forall>k<length ins. \<exists>out. sanitize_embed (iso_clock en k) (ins ! k) = Inr out \<and>
                              outs ! k = JSON_stringify out)"
proof -
  from assms obtain payload ins safePayload where
    body: "body_json ev = Some payload" and
    val: "validate_connexion payload = Next ins" and
    safe: "safePayload_connexion (iso_clock en) ins = Inr safePayload" and
    doc: "doc = JSON_stringify safePayload"
    by (auto simp: handler_connexion_def
        split: if_splits prod.splits option.splits step.splits sum.splits)
  from safe obtain sl where
    sl: "list_all2 (\<lambda>x y. (case x of (k, emb) \<Rightarrow> sanitize_embed (iso_clock en k) emb) = Inr y)
           (List.enumerate 0 ins) sl"
    and sp: "safePayload = Obj [(ascii ''embeds'', Arr sl)]"
    by (auto simp: safePayload_connexion_def bind_js_Inr map_js_Inr)
  from list_all2_enumerate [OF sl]
  have len: "length sl = length ins"
    and each: "\<forall>k<length ins. sanitize_embed (iso_clock en k) (ins ! k) = Inr (sl ! k)"
    by auto
  have "\<forall>k<length ins. \<exists>out. sanitize_embed (iso_clock en k) (ins ! k) = Inr out \<and>
          stringify_elems sl ! k = JSON_stringify out"
  proof (intro allI impI)
    fix k assume k: "k < length ins"
    with each have s: "sanitize_embed (iso_clock en k) (ins ! k) = Inr (sl ! k)" by simp
    then have "sl ! k \<noteq> Undefined" by (rule sanitize_embed_defined)
    then have "stringify_elems sl ! k = JSON_stringify (sl ! k)"
      using k len by (simp add: stringify_elems_map)
    with s show "\<exists>out. sanitize_embed (iso_clock en k) (ins ! k) = Inr out \<and>
          stringify_elems sl ! k = JSON_stringify out" by blast
  qed
  moreover have "length (stringify_elems sl) = length ins"
    using len by (simp add: stringify_elems_map)
  moreover have "doc = Obj [(ascii ''embeds'', Arr (stringify_elems sl))]"
    by (simp add: doc sp)
  ultimately show ?thesis
    using body validate_connexion_Next [OF val] by blast
qed

lemma sanitize_embed_forwarded:
  assumes "sanitize_embed ts e = Inr out"
  shows "(\<exists>d. to_string (or_empty (get_prop_opt e (ascii ''description''))) = Inr d \<and>
            get_prop_opt (JSON_stringify out) (ascii ''description'') = Str (take 4096 d)) \<and>
         (\<exists>fs. get_prop_opt (JSON_stringify out) (ascii ''fields'') = Arr fs \<and>
            list_all2 (\<lambda>x y. sanitize_field x = Inr y)
              (case get_prop_opt e (ascii ''fields'') of Arr xs \<Rightarrow> take 25 xs | _ \<Rightarrow> []) fs) \<and>
         get_prop_opt (JSON_stringify out) (ascii ''timestamp'') = Str ts"
proof -
  from sanitize_embed_shape [OF assms] obtain t d u fs where
    d: "to_string (or_empty (get_prop_opt e (ascii ''description''))) = Inr d" and
    fs: "list_all2 (\<lambda>x y. sanitize_field x = Inr y)
       (case get_prop_opt e (ascii ''fields'') of Arr xs \<Rightarrow> take 25 xs | _ \<Rightarrow> []) fs" and
    out: "JSON_stringify out =
       Obj ([(ascii ''title'', Str (take 256 t)),
             (ascii ''description'', Str (take 4096 d)),
             (ascii ''color'',
                (case get_prop_opt e (ascii ''color'') of
                   Num r \<Rightarrow> if non_finite r then Null else Num r
                 | _ \<Rightarrow> Num (ascii ''0'')))] @
            (if truthy (get_prop_opt (get_prop_opt e (ascii ''thumbnail'')) (ascii ''url''))
             then [(ascii ''thumbnail'', Obj [(ascii ''url'', Str (take 512 u))])] else []) @
            [(ascii ''fields'', Arr fs), (ascii ''timestamp'', Str ts)])"
    by blast
  have "get_prop_opt (JSON_stringify out) (ascii ''description'') = Str (take 4096 d)"
    "get_prop_opt (JSON_stringify out) (ascii ''fields'') = Arr fs"
    "get_prop_opt (JSON_stringify out) (ascii ''timestamp'') = Str ts"
    unfolding out by (simp_all add: ascii_def)
  with d fs show ?thesis by blast
qed

text \<open>
  C5. Whenever webhook-connexion posts a document, it holds one embed per embed of the
  payload, in order, and for the \<open>k\<close>-th: the description is the first 4096 code units of
  the client's description converted to a string (of the description itself when it is a
  string, so that 10000 code units become exactly 4096); the fields are the sanitised first
  25 entries of the client's \<open>fields\<close> array, and none when \<open>fields\<close> is absent or not an
  array; the timestamp is the server's \<open>k\<close>-th clock reading, whatever the client sent.
\<close>

theorem connexion_sanitization:
  assumes "posted (handler_connexion ev en rl) = Some (url, doc)"
  shows "\<exists>payload ins outs.
     body_json ev = Some payload \<and> get_prop_opt payload (ascii ''embeds'') = Arr ins \<and>
     doc = Obj [(ascii ''embeds'', Arr outs)] \<and> length outs = length ins \<and>
     (\<forall>k<length ins.
        (\<exists>d. to_string (or_empty (get_prop_opt (ins ! k) (ascii ''description''))) = Inr d \<and>
           get_prop_opt (outs ! k) (ascii ''description'') = Str (take 4096 d)) \<and>
        (\<forall>s. get_prop_opt (ins ! k) (ascii ''description'') = Str s \<longrightarrow>
           get_prop_opt (outs ! k) (ascii ''description'') = Str (take 4096 s) \<and>
           (length s = 10000 \<longrightarrow> length (take 4096 s) = 4096)) \<and>
        (\<exists>fs. get_prop_opt (outs ! k) (ascii ''fields'') = Arr fs \<and>
           list_all2 (\<lambda>x y. sanitize_field x = Inr y)
             (case get_prop_opt (ins ! k) (ascii ''fields'') of Arr xs \<Rightarrow> take 25 xs | _ \<Rightarrow> [])
             fs \<and>
           length fs = (case get_prop_opt (ins ! k) (ascii ''fields'') of
                          Arr xs \<Rightarrow> min 25 (length xs) | _ \<Rightarrow> 0)) \<and>
        get_prop_opt (outs ! k) (ascii ''timestamp'') = Str (iso_clock en k))"
proof -
  from connexion_posted [OF assms] obtain payload ins outs where
    body: "body_json ev = Some payload" "get_prop_opt payload (ascii ''embeds'') = Arr ins"
      "doc = Obj [(ascii ''embeds'', Arr outs)]" "length outs = length ins" and
    each: "\<forall>k<length ins. \<exists>out. sanitize_embed (iso_clock en k) (ins ! k) = Inr out \<and>
                              outs ! k = JSON_stringify out"
    by blast
  have "\<forall>k<length ins.
        (\<exists>d. to_string (or_empty (get_prop_opt (ins ! k) (ascii ''description''))) = Inr d \<and>
           get_prop_opt (outs ! k) (ascii ''description'') = Str (take 4096 d)) \<and>
        (\<forall>s. get_prop_opt (ins ! k) (ascii ''description'') = Str s \<longrightarrow>
           get_prop_opt (outs ! k) (ascii ''description'') = Str (take 4096 s) \<and>
           (length s = 10000 \<longrightarrow> length (take 4096 s) = 4096)) \<and>
        (\<exists>fs. get_prop_opt (outs ! k) (ascii ''fields'') = Arr fs \<and>
           list_all2 (\<lambda>x y. sanitize_field x = Inr y)
             (case get_prop_opt (ins ! k) (ascii ''fields'') of Arr xs \<Rightarrow> take 25 xs | _ \<Rightarrow> [])
             fs \<and>
           length fs = (case get_prop_opt (ins ! k) (ascii ''fields'') of
                          Arr xs \<Rightarrow> min 25 (length xs) | _ \<Rightarrow> 0)) \<and>
        get_prop_opt (outs ! k) (ascii ''timestamp'') = Str (iso_clock en k)"
  proof (intro allI impI)
    fix k assume "k < length ins"
    with each obtain out where
      s: "sanitize_embed (iso_clock en k) (ins ! k) = Inr out" and o: "outs ! k = JSON_stringify out"
      by blast
    from sanitize_embed_forwarded [OF s] obtain d fs where
      d: "to_string (or_empty (get_prop_opt (ins ! k) (ascii ''description''))) = Inr d"
        "get_prop_opt (outs ! k) (ascii ''description'') = Str (take 4096 d)" and
      fs: "get_prop_opt (outs ! k) (ascii ''fields'') = Arr fs"
        "list_all2 (\<lambda>x y. sanitize_field x = Inr y)
           (case get_prop_opt (ins ! k) (ascii ''fields'') of Arr xs \<Rightarrow> take 25 xs | _ \<Rightarrow> []) fs" and
      ts: "get_prop_opt (outs ! k) (ascii ''timestamp'') = Str (iso_clock en k)"
      unfolding o by blast
    have str: "\<forall>s. get_prop_opt (ins ! k) (ascii ''description'') = Str s \<longrightarrow>
           get_prop_opt (outs ! k) (ascii ''description'') = Str (take 4096 s) \<and>
           (length s = 10000 \<longrightarrow> length (take 4096 s) = 4096)"
      using d by (auto simp: or_empty_def split: if_splits)
    have len: "length fs = (case get_prop_opt (ins ! k) (ascii ''fields'') of
                          Arr xs \<Rightarrow> min 25 (length xs) | _ \<Rightarrow> 0)"
      using list_all2_lengthD [OF fs(2)] by (auto split: jsval.splits)
    show "(\<exists>d. to_string (or_empty (get_prop_opt (ins ! k) (ascii ''description''))) = Inr d \<and>
           get_prop_opt (outs ! k) (ascii ''description'') = Str (take 4096 d)) \<and>
        (\<forall>s. get_prop_opt (ins ! k) (ascii ''description'') = Str s \<longrightarrow>
           get_prop_opt (outs ! k) (ascii ''description'') = Str (take 4096 s) \<and>
           (length s = 10000 \<longrightarrow> length (take 4096 s) = 4096)) \<and>
        (\<exists>fs. get_prop_opt (outs ! k) (ascii ''fields'') = Arr fs \<and>
           list_all2 (\<lambda>x y. sanitize_field x = Inr y)
             (case get_prop_opt (ins ! k) (ascii ''fields'') of Arr xs \<Rightarrow> take 25 xs | _ \<Rightarrow> [])
             fs \<and>
           length fs = (case get_prop_opt (ins ! k) (ascii ''fields'') of
                          Arr xs \<Rightarrow> min 25 (length xs) | _ \<Rightarrow> 0)) \<and>
        get_prop_opt (outs ! k) (ascii ''timestamp'') = Str (iso_clock en k)"
      using d fs ts str len by blast
  qed
  with body show ?thesis by blast
qed

lemma map_js_replicate: "f x = Inr y \<Longrightarrow> map_js f (replicate n x) = Inr (replicate n y)"
  by (induction n) auto

lemma stringify_elems_replicate:
  "y \<noteq> Undefined \<Longrightarrow> stringify_elems (replicate n y) = replicate n (JSON_stringify y)"
  by (induction n) auto

lemma example_field:
  "sanitize_field (Obj [(ascii ''name'', Str (ascii ''n'')), (ascii ''value'', Num (ascii ''7''))]) =
   Inr (Obj [(ascii ''name'', Str (ascii ''n'')), (ascii ''value'', Str (ascii ''7'')),
             (ascii ''inline'', Bool False)])"
  by (simp add: sanitize_field_def or_empty_def slice0_def ascii_def)

text \<open>A 10000-unit description, 26 fields and a client timestamp: 4096 units, 25 fields
  and the server's timestamp are posted.\<close>

theorem connexion_sanitization_witness:
  "posted (handler_connexion
     (site_post (Obj [(ascii ''embeds'', Arr [Obj
        [(ascii ''description'', Str (replicate 10000 0x61)),
         (ascii ''timestamp'', Str (ascii ''1999-12-31T23:59:59.000Z'')),
         (ascii ''fields'', Arr (replicate 26
            (Obj [(ascii ''name'', Str (ascii ''n'')), (ascii ''value'', Num (ascii ''7''))])))]])]))
     example_env Map.empty) =
   Some (ascii ''https://discord.com/api/webhooks/1/x'',
     Obj [(ascii ''embeds'', Arr [Obj
        [(ascii ''title'', Str []),
         (ascii ''description'', Str (replicate 4096 0x61)),
         (ascii ''color'', Num (ascii ''0'')),
         (ascii ''fields'', Arr (replicate 25
            (Obj [(ascii ''name'', Str (ascii ''n'')), (ascii ''value'', Str (ascii ''7'')),
                  (ascii ''inline'', Bool False)]))),
         (ascii ''timestamp'', Str (ascii ''2025-01-01T00:00:00.000Z''))]])])"
proof -
  have p: "posted (handler_connexion
     (site_post (Obj [(ascii ''embeds'', Arr [Obj
        [(ascii ''description'', Str (replicate 10000 0x61)),
         (ascii ''timestamp'', Str (ascii ''1999-12-31T23:59:59.000Z'')),
         (ascii ''fields'', Arr (replicate 26
            (Obj [(ascii ''name'', Str (ascii ''n'')), (ascii ''value'', Num (ascii ''7''))])))]])]))
     example_env Map.empty) =
   Some (ascii ''https://discord.com/api/webhooks/1/x'',
     Obj [(ascii ''embeds'', Arr [Obj
        [(ascii ''title'', Str []),
         (ascii ''description'', Str (replicate 4096 0x61)),
         (ascii ''color'', Num (ascii ''0'')),
         (ascii ''fields'', Arr (replicate 25
            (Obj [(ascii ''name'', Str (ascii ''n'')), (ascii ''value'', Str (ascii ''7'')),
                  (ascii ''inline'', Bool False)]))),
         (ascii ''timestamp'', Str (ascii ''2025-01-01T00:00:00.000Z''))]])])"
    by (simp add: handler_connexion_def site_post_def example_env_def request_origin_allowed
        isRateLimited_connexion_def RATE_LIMIT_WINDOW_MS_connexion_def
        RATE_LIMIT_MAX_connexion_def client_ip_def validate_connexion_def
        safePayload_connexion_def enumerate_eq_zip sanitize_embed_def or_empty_def slice0_def
        map_js_replicate [where f = sanitize_field, OF example_field] stringify_elems_replicate
        non_finite_def ascii_eq_iff ascii_empty_iff)
  show ?thesis
    by (insert connexion_sanitization [OF p] p, assumption)
qed


section \<open>What is posted\<close>

lemma validate_avis_Next:
  assumes "validate_avis payload = Next a"
  shows "avis_username a = get_prop_opt payload (ascii ''username'') \<and>
         avis_userId a = get_prop_opt payload (ascii ''userId'') \<and>
         avis_avatarUrl a = get_prop_opt payload (ascii ''avatarUrl'') \<and>
         truthy (get_prop_opt payload (ascii ''username'')) \<and>
         truthy (get_prop_opt payload (ascii ''userId'')) \<and>
         truthy (get_prop_opt payload (ascii ''rating'')) \<and>
         truthy (get_prop_opt payload (ascii ''comment'')) \<and>
         (\<exists>rating_s. to_string (get_prop_opt payload (ascii ''rating'')) = Inr rating_s \<and>
            parseInt rating_s = Some (avis_rating a)) \<and>
         1 \<le> avis_rating a \<and> avis_rating a \<le> 5 \<and>
         (\<exists>comment_s. to_string (get_prop_opt payload (ascii ''comment'')) = Inr comment_s \<and>
            avis_comment a = take 500 comment_s) \<and>
         5 \<le> length (trim (avis_comment a)) \<and>
         (\<exists>userId_s. to_string (get_prop_opt payload (ascii ''userId'')) = Inr userId_s \<and>
            test_digits_15_20 userId_s)"
  using assms unfolding validate_avis_def
  by (auto simp: bind_js_Inr Let_def slice0_def
      split: sum.splits if_splits option.splits prod.splits dest!: get_prop_Inr)

lemma safePayload_avis_shape:
  assumes "safePayload_avis ts a = Inr safePayload"
  shows "\<exists>u i thumb.
     to_string (avis_username a) = Inr u \<and> to_string (avis_userId a) = Inr i \<and>
     (if truthy (avis_avatarUrl a)
      then \<exists>s. to_string (avis_avatarUrl a) = Inr s \<and>
             thumb = [(ascii ''thumbnail'', Obj [(ascii ''url'', Str (take 512 s))])]
      else thumb = []) \<and>
     JSON_stringify safePayload =
       Obj [(ascii ''content'',
               Str ([star] @ ascii '' **Nouvel avis re'' @ [0xE7] @ ascii ''u !**'')),
            (ascii ''embeds'', Arr [Obj
               ([(ascii ''title'', Str ([0xD83D, 0xDCAC] @ ascii '' Avis Client'')),
                 (ascii ''color'', Num (ascii ''16777215''))] @ thumb @
                [(ascii ''fields'', Arr
                    [Obj [(ascii ''name'', Str (ascii ''Utilisateur'')),
                          (ascii ''value'', Str (take 100 u)),
                          (ascii ''inline'', Bool True)],
                     Obj [(ascii ''name'', Str (ascii ''ID'')),
                          (ascii ''value'', Str (take 20 i)),
                          (ascii ''inline'', Bool True)],
                     Obj [(ascii ''name'', Str (ascii ''Note'')),
                          (ascii ''value'', Str (replicate (nat (avis_rating a)) star)),
                          (ascii ''inline'', Bool False)],
                     Obj [(ascii ''name'', Str (ascii ''Commentaire'')),
                          (ascii ''value'', Str (avis_comment a)),
                          (ascii ''inline'', Bool False)]]),
                 (ascii ''timestamp'', Str ts)])])]"
  using assms unfolding safePayload_avis_def slice0_def
  by (auto simp: bind_js_Inr non_finite_def ascii_eq_iff split: if_splits)

lemma avis_posted:
  assumes "posted (handler_avis ev en rl) = Some (url, doc)"
  shows "\<exists>payload a safePayload.
     body_json ev = Some payload \<and> validate_avis payload = Next a \<and>
     safePayload_avis (iso_clock en 0) a = Inr safePayload \<and> doc = JSON_stringify safePayload"
  using assms
  by (auto simp: handler_avis_def
      split: if_splits prod.splits option.splits step.splits sum.splits)

lemma sanitized_fields_bounded:
  assumes "list_all2 (\<lambda>x y. sanitize_field x = Inr y) xs fs"
  shows "\<forall>f\<in>set fs. \<exists>n v b.
           f = Obj [(ascii ''name'', Str n), (ascii ''value'', Str v), (ascii ''inline'', Bool b)] \<and>
           length n \<le> 256 \<and> length v \<le> 1024"
proof
  fix f assume "f \<in> set fs"
  with assms obtain x where "sanitize_field x = Inr f"
    by (auto simp: list_all2_conv_all_nth in_set_conv_nth)
  from sanitize_field_shape [OF this] show "\<exists>n v b.
           f = Obj [(ascii ''name'', Str n), (ascii ''value'', Str v), (ascii ''inline'', Bool b)] \<and>
           length n \<le> 256 \<and> length v \<le> 1024"
    by auto
qed

lemma sanitize_embed_bounded:
  assumes "sanitize_embed ts e = Inr out"
  shows "\<exists>t d thumb fs.
     JSON_stringify out =
       Obj ([(ascii ''title'', Str t), (ascii ''description'', Str d),
             (ascii ''color'',
                (case get_prop_opt e (ascii ''color'') of
                   Num r \<Rightarrow> if non_finite r then Null else Num r
                 | _ \<Rightarrow> Num (ascii ''0'')))] @ thumb @
            [(ascii ''fields'', Arr fs), (ascii ''timestamp'', Str ts)]) \<and>
     length t \<le> 256 \<and> length d \<le> 4096 \<and>
     (if truthy (get_prop_opt (get_prop_opt e (ascii ''thumbnail'')) (ascii ''url''))
      then \<exists>u. thumb = [(ascii ''thumbnail'', Obj [(ascii ''url'', Str u)])] \<and> length u \<le> 512
      else thumb = []) \<and>
     length fs \<le> 25 \<and>
     (\<forall>f\<in>set fs. \<exists>n v b.
        f = Obj [(ascii ''name'', Str n), (ascii ''value'', Str v), (ascii ''inline'', Bool b)] \<and>
        length n \<le> 256 \<and> length v \<le> 1024)"
proof -
  from sanitize_embed_shape [OF assms] obtain t d u fs where
    fs: "list_all2 (\<lambda>x y. sanitize_field x = Inr y)
       (case get_prop_opt e (ascii ''fields'') of Arr xs \<Rightarrow> take 25 xs | _ \<Rightarrow> []) fs" and
    out: "JSON_stringify out =
       Obj ([(ascii ''title'', Str (take 256 t)),
             (ascii ''description'', Str (take 4096 d)),
             (ascii ''color'',
                (case get_prop_opt e (ascii ''color'') of
                   Num r \<Rightarrow> if non_finite r then Null else Num r
                 | _ \<Rightarrow> Num (ascii ''0'')))] @
            (if truthy (get_prop_opt (get_prop_opt e (ascii ''thumbnail'')) (ascii ''url''))
             then [(ascii ''thumbnail'', Obj [(ascii ''url'', Str (take 512 u))])] else []) @
            [(ascii ''fields'', Arr fs), (ascii ''timestamp'', Str ts)])"
    by blast
  have len: "length fs \<le> 25"
    using list_all2_lengthD [OF fs] by (auto split: jsval.splits)
  note bounded = sanitized_fields_bounded [OF fs]
  show ?thesis
    apply (rule exI [of _ "take 256 t"], rule exI [of _ "take 4096 d"])
    apply (rule exI [of _ "if truthy (get_prop_opt (get_prop_opt e (ascii ''thumbnail'')) (ascii ''url''))
             then [(ascii ''thumbnail'', Obj [(ascii ''url'', Str (take 512 u))])] else []"])
    apply (rule exI [of _ fs])
    using len bounded by (simp add: out)
qed

text \<open>
  C2, as amended. Every document posted has the shape below. In webhook-connexion the title
  has at most 256 code units, the description 4096, a thumbnail URL 512, a field name 256
  and a field value 1024, with at most 25 fields; the colour is the client's value when that
  is a finite number, unchanged whatever it is, \<open>null\<close> when it is a number that is not
  finite (the literal \<open>1e400\<close> parses to \<open>Infinity\<close>), and 0 when it is not a number.
  In webhook-avis the user name has at most 100 code units, the ID 20, the comment 500, the
  note is 1 to 5 stars, an avatar URL has at most 512, and the colour is the constant
  16777215. In both, a thumbnail that is absent (or falsy) leaves no \<open>thumbnail\<close> property
  in the document.
\<close>

theorem forwarded_payload_bounds:
  "(posted (handler_connexion ev en rl) = Some (url, doc) \<longrightarrow>
      (\<exists>payload ins outs.
         body_json ev = Some payload \<and> get_prop_opt payload (ascii ''embeds'') = Arr ins \<and>
         doc = Obj [(ascii ''embeds'', Arr outs)] \<and> length outs = length ins \<and>
         (\<forall>k<length ins. \<exists>t d thumb fs.
            outs ! k =
              Obj ([(ascii ''title'', Str t), (ascii ''description'', Str d),
                    (ascii ''color'',
                       (case get_prop_opt (ins ! k) (ascii ''color'') of
                   Num r \<Rightarrow> if non_finite r then Null else Num r
                 | _ \<Rightarrow> Num (ascii ''0'')))] @
                   thumb @
                   [(ascii ''fields'', Arr fs), (ascii ''timestamp'', Str (iso_clock en k))]) \<and>
            length t \<le> 256 \<and> length d \<le> 4096 \<and>
            (if truthy (get_prop_opt (get_prop_opt (ins ! k) (ascii ''thumbnail'')) (ascii ''url''))
             then \<exists>u. thumb = [(ascii ''thumbnail'', Obj [(ascii ''url'', Str u)])] \<and>
                      length u \<le> 512
             else thumb = []) \<and>
            length fs \<le> 25 \<and>
            (\<forall>f\<in>set fs. \<exists>n v b.
               f = Obj [(ascii ''name'', Str n), (ascii ''value'', Str v),
                        (ascii ''inline'', Bool b)] \<and>
               length n \<le> 256 \<and> length v \<le> 1024)))) \<and>
   (posted (handler_avis ev en rl) = Some (url, doc) \<longrightarrow>
      (\<exists>payload u i n c thumb.
         body_json ev = Some payload \<and>
         doc =
           Obj [(ascii ''content'',
                   Str ([star] @ ascii '' **Nouvel avis re'' @ [0xE7] @ ascii ''u !**'')),
                (ascii ''embeds'', Arr [Obj
                   ([(ascii ''title'', Str ([0xD83D, 0xDCAC] @ ascii '' Avis Client'')),
                     (ascii ''color'', Num (ascii ''16777215''))] @ thumb @
                    [(ascii ''fields'', Arr
                        [Obj [(ascii ''name'', Str (ascii ''Utilisateur'')),
                              (ascii ''value'', Str u), (ascii ''inline'', Bool True)],
                         Obj [(ascii ''name'', Str (ascii ''ID'')),
                              (ascii ''value'', Str i), (ascii ''inline'', Bool True)],
                         Obj [(ascii ''name'', Str (ascii ''Note'')),
                              (ascii ''value'', Str (replicate n star)),
                              (ascii ''inline'', Bool False)],
                         Obj [(ascii ''name'', Str (ascii ''Commentaire'')),
                              (ascii ''value'', Str c), (ascii ''inline'', Bool False)]]),
                     (ascii ''timestamp'', Str (iso_clock en 0))])])] \<and>
         length u \<le> 100 \<and> length i \<le> 20 \<and> 1 \<le> n \<and> n \<le> 5 \<and> length c \<le> 500 \<and>
         (if truthy (get_prop_opt payload (ascii ''avatarUrl''))
          then \<exists>s. thumb = [(ascii ''thumbnail'', Obj [(ascii ''url'', Str s)])] \<and>
                   length s \<le> 512
          else thumb = [])))"
proof (intro conjI impI)
  assume "posted (handler_connexion ev en rl) = Some (url, doc)"
  from connexion_posted [OF this] obtain payload ins outs where
    body: "body_json ev = Some payload" "get_prop_opt payload (ascii ''embeds'') = Arr ins"
      "doc = Obj [(ascii ''embeds'', Arr outs)]" "length outs = length ins" and
    each: "\<forall>k<length ins. \<exists>out. sanitize_embed (iso_clock en k) (ins ! k) = Inr out \<and>
                              outs ! k = JSON_stringify out"
    by blast
  have "\<forall>k<length ins. \<exists>t d thumb fs.
            outs ! k =
              Obj ([(ascii ''title'', Str t), (ascii ''description'', Str d),
                    (ascii ''color'',
                       (case get_prop_opt (ins ! k) (ascii ''color'') of
                   Num r \<Rightarrow> if non_finite r then Null else Num r
                 | _ \<Rightarrow> Num (ascii ''0'')))] @
                   thumb @
                   [(ascii ''fields'', Arr fs), (ascii ''timestamp'', Str (iso_clock en k))]) \<and>
            length t \<le> 256 \<and> length d \<le> 4096 \<and>
            (if truthy (get_prop_opt (get_prop_opt (ins ! k) (ascii ''thumbnail'')) (ascii ''url''))
             then \<exists>u. thumb = [(ascii ''thumbnail'', Obj [(ascii ''url'', Str u)])] \<and>
                      length u \<le> 512
             else thumb = []) \<and>
            length fs \<le> 25 \<and>
            (\<forall>f\<in>set fs. \<exists>n v b.
               f = Obj [(ascii ''name'', Str n), (ascii ''value'', Str v),
                        (ascii ''inline'', Bool b)] \<and>
               length n \<le> 256 \<and> length v \<le> 1024)"
  proof (intro allI impI)
    fix k assume "k < length ins"
    with each obtain out where
      s: "sanitize_embed (iso_clock en k) (ins ! k) = Inr out" and o: "outs ! k = JSON_stringify out"
      by blast
    from sanitize_embed_bounded [OF s] show "\<exists>t d thumb fs.
            outs ! k =
              Obj ([(ascii ''title'', Str t), (ascii ''description'', Str d),
                    (ascii ''color'',
                       (case get_prop_opt (ins ! k) (ascii ''color'') of
                   Num r \<Rightarrow> if non_finite r then Null else Num r
                 | _ \<Rightarrow> Num (ascii ''0'')))] @
                   thumb @
                   [(ascii ''fields'', Arr fs), (ascii ''timestamp'', Str (iso_clock en k))]) \<and>
            length t \<le> 256 \<and> length d \<le> 4096 \<and>
            (if truthy (get_prop_opt (get_prop_opt (ins ! k) (ascii ''thumbnail'')) (ascii ''url''))
             then \<exists>u. thumb = [(ascii ''thumbnail'', Obj [(ascii ''url'', Str u)])] \<and>
                      length u \<le> 512
             else thumb = []) \<and>
            length fs \<le> 25 \<and>
            (\<forall>f\<in>set fs. \<exists>n v b.
               f = Obj [(ascii ''name'', Str n), (ascii ''value'', Str v),
                        (ascii ''inline'', Bool b)] \<and>
               length n \<le> 256 \<and> length v \<le> 1024)"
      unfolding o .
  qed
  with body show "\<exists>payload ins outs.
         body_json ev = Some payload \<and> get_prop_opt payload (ascii ''embeds'') = Arr ins \<and>
         doc = Obj [(ascii ''embeds'', Arr outs)] \<and> length outs = length ins \<and>
         (\<forall>k<length ins. \<exists>t d thumb fs.
            outs ! k =
              Obj ([(ascii ''title'', Str t), (ascii ''description'', Str d),
                    (ascii ''color'',
                       (case get_prop_opt (ins ! k) (ascii ''color'') of
                   Num r \<Rightarrow> if non_finite r then Null else Num r
                 | _ \<Rightarrow> Num (ascii ''0'')))] @
                   thumb @
                   [(ascii ''fields'', Arr fs), (ascii ''timestamp'', Str (iso_clock en k))]) \<and>
            length t \<le> 256 \<and> length d \<le> 4096 \<and>
            (if truthy (get_prop_opt (get_prop_opt (ins ! k) (ascii ''thumbnail'')) (ascii ''url''))
             then \<exists>u. thumb = [(ascii ''thumbnail'', Obj [(ascii ''url'', Str u)])] \<and>
                      length u \<le> 512
             else thumb = []) \<and>
            length fs \<le> 25 \<and>
            (\<forall>f\<in>set fs. \<exists>n v b.
               f = Obj [(ascii ''name'', Str n), (ascii ''value'', Str v),
                        (ascii ''inline'', Bool b)] \<and>
               length n \<le> 256 \<and> length v \<le> 1024))"
    by blast
next
  assume "posted (handler_avis ev en rl) = Some (url, doc)"
  from avis_posted [OF this] obtain payload a safePayload where
    body: "body_json ev = Some payload" and val: "validate_avis payload = Next a" and
    safe: "safePayload_avis (iso_clock en 0) a = Inr safePayload" and
    doc: "doc = JSON_stringify safePayload"
    by blast
  note v = validate_avis_Next [OF val]
  from safePayload_avis_shape [OF safe] obtain u i thumb where
    th: "if truthy (avis_avatarUrl a)
      then \<exists>s. to_string (avis_avatarUrl a) = Inr s \<and>
             thumb = [(ascii ''thumbnail'', Obj [(ascii ''url'', Str (take 512 s))])]
      else thumb = []" and
    shape: "JSON_stringify safePayload =
       Obj [(ascii ''content'',
               Str ([star] @ ascii '' **Nouvel avis re'' @ [0xE7] @ ascii ''u !**'')),
            (ascii ''embeds'', Arr [Obj
               ([(ascii ''title'', Str ([0xD83D, 0xDCAC] @ ascii '' Avis Client'')),
                 (ascii ''color'', Num (ascii ''16777215''))] @ thumb @
                [(ascii ''fields'', Arr
                    [Obj [(ascii ''name'', Str (ascii ''Utilisateur'')),
                          (ascii ''value'', Str (take 100 u)),
                          (ascii ''inline'', Bool True)],
                     Obj [(ascii ''name'', Str (ascii ''ID'')),
                          (ascii ''value'', Str (take 20 i)),
                          (ascii ''inline'', Bool True)],
                     Obj [(ascii ''name'', Str (ascii ''Note'')),
                          (ascii ''value'', Str (replicate (nat (avis_rating a)) star)),
                          (ascii ''inline'', Bool False)],
                     Obj [(ascii ''name'', Str (ascii ''Commentaire'')),
                          (ascii ''value'', Str (avis_comment a)),
                          (ascii ''inline'', Bool False)]]),
                 (ascii ''timestamp'', Str (iso_clock en 0))])])]"
    by blast
  have n: "1 \<le> nat (avis_rating a)" "nat (avis_rating a) \<le> 5"
    using v by auto
  have c: "length (avis_comment a) \<le> 500"
    using v by auto
  have th': "if truthy (get_prop_opt payload (ascii ''avatarUrl''))
          then \<exists>s. thumb = [(ascii ''thumbnail'', Obj [(ascii ''url'', Str s)])] \<and>
                   length s \<le> 512
          else thumb = []"
    using th v by (auto split: if_splits)
  show "\<exists>payload u i n c thumb.
         body_json ev = Some payload \<and>
         doc =
           Obj [(ascii ''content'',
                   Str ([star] @ ascii '' **Nouvel avis re'' @ [0xE7] @ ascii ''u !**'')),
                (ascii ''embeds'', Arr [Obj
                   ([(ascii ''title'', Str ([0xD83D, 0xDCAC] @ ascii '' Avis Client'')),
                     (ascii ''color'', Num (ascii ''16777215''))] @ thumb @
                    [(ascii ''fields'', Arr
                        [Obj [(ascii ''name'', Str (ascii ''Utilisateur'')),
                              (ascii ''value'', Str u), (ascii ''inline'', Bool True)],
                         Obj [(ascii ''name'', Str (ascii ''ID'')),
                              (ascii ''value'', Str i), (ascii ''inline'', Bool True)],
                         Obj [(ascii ''name'', Str (ascii ''Note'')),
                              (ascii ''value'', Str (replicate n star)),
                              (ascii ''inline'', Bool False)],
                         Obj [(ascii ''name'', Str (ascii ''Commentaire'')),
                              (ascii ''value'', Str c), (ascii ''inline'', Bool False)]]),
                     (ascii ''timestamp'', Str (iso_clock en 0))])])] \<and>
         length u \<le> 100 \<and> length i \<le> 20 \<and> 1 \<le> n \<and> n \<le> 5 \<and> length c \<le> 500 \<and>
         (if truthy (get_prop_opt payload (ascii ''avatarUrl''))
          then \<exists>s. thumb = [(ascii ''thumbnail'', Obj [(ascii ''url'', Str s)])] \<and>
                   length s \<le> 512
          else thumb = [])"
    apply (rule exI [of _ payload], rule exI [of _ "take 100 u"], rule exI [of _ "take 20 i"])
    apply (rule exI [of _ "nat (avis_rating a)"], rule exI [of _ "avis_comment a"])
    apply (rule exI [of _ thumb])
    using body n c th' by (simp add: doc shape)
qed

text \<open>Two embeds, with and without a thumbnail, and a review without an avatar.\<close>

theorem forwarded_payload_bounds_witness:
  "posted (handler_connexion
     (site_post (Obj [(ascii ''embeds'', Arr
        [Obj [(ascii ''title'', Str (ascii ''Connexion'')),
              (ascii ''color'', Num (ascii ''5793266'')),
              (ascii ''thumbnail'', Obj [(ascii ''url'', Str (ascii ''https://cdn.example/a.png''))])],
         Obj [(ascii ''color'', Str (ascii ''red'')), (ascii ''thumbnail'', Null)],
         Obj [(ascii ''color'', Num (ascii ''Infinity''))]])]))
     example_env Map.empty) =
   Some (ascii ''https://discord.com/api/webhooks/1/x'',
     Obj [(ascii ''embeds'', Arr
        [Obj [(ascii ''title'', Str (ascii ''Connexion'')),
              (ascii ''description'', Str []),
              (ascii ''color'', Num (ascii ''5793266'')),
              (ascii ''thumbnail'', Obj [(ascii ''url'', Str (ascii ''https://cdn.example/a.png''))]),
              (ascii ''fields'', Arr []),
              (ascii ''timestamp'', Str (ascii ''2025-01-01T00:00:00.000Z''))],
         Obj [(ascii ''title'', Str []),
              (ascii ''description'', Str []),
              (ascii ''color'', Num (ascii ''0'')),
              (ascii ''fields'', Arr []),
              (ascii ''timestamp'', Str (ascii ''2025-01-01T00:00:00.000Z''))],
         Obj [(ascii ''title'', Str []),
              (ascii ''description'', Str []),
              (ascii ''color'', Null),
              (ascii ''fields'', Arr []),
              (ascii ''timestamp'', Str (ascii ''2025-01-01T00:00:00.000Z''))]])]) \<and>
   posted (handler_avis
     (site_post (Obj [(ascii ''username'', Str (ascii ''Ana'')),
        (ascii ''userId'', Str (ascii ''123456789012345'')),
        (ascii ''rating'', Num (ascii ''3'')),
        (ascii ''comment'', Str (ascii ''Super travail''))]))
     example_env Map.empty) =
   Some (ascii ''https://discord.com/api/webhooks/1/x'',
     Obj [(ascii ''content'',
             Str ([star] @ ascii '' **Nouvel avis re'' @ [0xE7] @ ascii ''u !**'')),
          (ascii ''embeds'', Arr [Obj
             [(ascii ''title'', Str ([0xD83D, 0xDCAC] @ ascii '' Avis Client'')),
              (ascii ''color'', Num (ascii ''16777215'')),
              (ascii ''fields'', Arr
                 [Obj [(ascii ''name'', Str (ascii ''Utilisateur'')),
                       (ascii ''value'', Str (ascii ''Ana'')), (ascii ''inline'', Bool True)],
                  Obj [(ascii ''name'', Str (ascii ''ID'')),
                       (ascii ''value'', Str (ascii ''123456789012345'')),
                       (ascii ''inline'', Bool True)],
                  Obj [(ascii ''name'', Str (ascii ''Note'')),
                       (ascii ''value'', Str [star, star, star]),
                       (ascii ''inline'', Bool False)],
                  Obj [(ascii ''name'', Str (ascii ''Commentaire'')),
                       (ascii ''value'', Str (ascii ''Super travail'')),
                       (ascii ''inline'', Bool False)]]),
              (ascii ''timestamp'', Str (ascii ''2025-01-01T00:00:00.000Z''))]])])"
  (is "?c \<and> ?a")
proof -
  have c: ?c
    by (simp add: handler_connexion_def site_post_def example_env_def request_origin_allowed
        isRateLimited_connexion_def RATE_LIMIT_WINDOW_MS_connexion_def
        RATE_LIMIT_MAX_connexion_def client_ip_def validate_connexion_def
        safePayload_connexion_def enumerate_eq_zip sanitize_embed_def or_empty_def slice0_def
        non_finite_def ascii_def)
  have a: ?a
    by (simp add: handler_avis_def site_post_def example_env_def request_origin_allowed
        isRateLimited_avis_def RATE_LIMIT_WINDOW_MS_avis_def RATE_LIMIT_MAX_avis_def
        client_ip_def validate_avis_def parseInt_def is_white_space_def digit_value_def
        trim_def test_digits_15_20_def safePayload_avis_def slice0_def numeral_3_eq_3
        non_finite_def ascii_def)
  show ?thesis
    by (insert forwarded_payload_bounds [THEN conjunct1, THEN mp, OF c]
          forwarded_payload_bounds [THEN conjunct2, THEN mp, OF a],
        rule conjI [OF c a])
qed

text \<open>
  C2, as stated, fails on the colour: the numbers -1 and 99999999999 are posted as they
  came. No range is applied to the only number a client supplies to webhook-connexion;
  it is tested for being a number, and serialised.
\<close>

theorem colour_not_range_checked:
  "posted (handler_connexion
     (site_post (Obj [(ascii ''embeds'', Arr
        [Obj [(ascii ''color'', Num (ascii ''-1''))],
         Obj [(ascii ''color'', Num (ascii ''99999999999''))]])]))
     example_env Map.empty) =
   Some (ascii ''https://discord.com/api/webhooks/1/x'',
     Obj [(ascii ''embeds'', Arr
        [Obj [(ascii ''title'', Str []),
              (ascii ''description'', Str []),
              (ascii ''color'', Num (ascii ''-1'')),
              (ascii ''fields'', Arr []),
              (ascii ''timestamp'', Str (ascii ''2025-01-01T00:00:00.000Z''))],
         Obj [(ascii ''title'', Str []),
              (ascii ''description'', Str []),
              (ascii ''color'', Num (ascii ''99999999999'')),
              (ascii ''fields'', Arr []),
              (ascii ''timestamp'', Str (ascii ''2025-01-01T00:00:00.000Z''))]])])"
  by (simp add: handler_connexion_def site_post_def example_env_def request_origin_allowed
      isRateLimited_connexion_def RATE_LIMIT_WINDOW_MS_connexion_def
      RATE_LIMIT_MAX_connexion_def client_ip_def validate_connexion_def
      safePayload_connexion_def enumerate_eq_zip sanitize_embed_def or_empty_def slice0_def
      non_finite_def ascii_def)

section \<open>Validation in webhook-avis\<close>

lemma handler_avis_validation:
  assumes "origin_header ev = Some ALLOWED_ORIGIN" and "httpMethod ev = ascii ''POST''"
    and "isRateLimited_avis (date_now en) (client_ip ev) rl = (False, rl')"
    and "body_json ev = Some payload"
  shows "validate_avis payload = Reply r \<Longrightarrow>
           handler_avis ev en rl = \<lparr>outcome = Returns r, rateLimitMap = rl', posted = None\<rparr>"
    and "validate_avis payload = Throw e \<Longrightarrow>
           handler_avis ev en rl = \<lparr>outcome = Throws e, rateLimitMap = rl', posted = None\<rparr>"
  using assms by (simp_all add: handler_avis_def request_origin_allowed)

lemma get_prop_total:
  "payload \<noteq> Null \<Longrightarrow> payload \<noteq> Undefined \<Longrightarrow> get_prop payload k = Inr (get_prop_opt payload k)"
  by (cases payload) auto

text \<open>
  Whenever the conversions to a string succeed, the validation is as specified: a rating
  that does not parse to an integer from 1 to 5 is answered 400; then a comment whose first
  500 code units trim to fewer than 5 is answered 400; then a user ID that is not 15 to 20
  digits is answered 400; and what is posted carries as many stars as the rating and the
  truncated comment.
\<close>

lemma rating_validation:
  assumes "payload \<noteq> Null" "payload \<noteq> Undefined"
    and "truthy (get_prop_opt payload (ascii ''username''))"
    and "truthy (get_prop_opt payload (ascii ''userId''))"
    and "truthy (get_prop_opt payload (ascii ''rating''))"
    and "truthy (get_prop_opt payload (ascii ''comment''))"
    and "to_string (get_prop_opt payload (ascii ''rating'')) = Inr rating_s"
    and "parseInt rating_s = None \<or> (\<exists>n. parseInt rating_s = Some n \<and> (n < 1 \<or> 5 < n))"
  shows "validate_avis payload = Reply (reply 400 (ascii ''Invalid rating''))"
  using assms by (auto simp: validate_avis_def get_prop_total)

lemma comment_validation:
  assumes "payload \<noteq> Null" "payload \<noteq> Undefined"
    and "truthy (get_prop_opt payload (ascii ''username''))"
    and "truthy (get_prop_opt payload (ascii ''userId''))"
    and "truthy (get_prop_opt payload (ascii ''rating''))"
    and "truthy (get_prop_opt payload (ascii ''comment''))"
    and "to_string (get_prop_opt payload (ascii ''rating'')) = Inr rating_s"
    and "parseInt rating_s = Some n" "1 \<le> n" "n \<le> 5"
    and "to_string (get_prop_opt payload (ascii ''comment'')) = Inr comment_s"
    and "length (trim (take 500 comment_s)) < 5"
  shows "validate_avis payload = Reply (reply 400 (ascii ''Comment too short''))"
  using assms by (auto simp: validate_avis_def get_prop_total slice0_def)

lemma userId_validation:
  assumes "payload \<noteq> Null" "payload \<noteq> Undefined"
    and "truthy (get_prop_opt payload (ascii ''username''))"
    and "truthy (get_prop_opt payload (ascii ''userId''))"
    and "truthy (get_prop_opt payload (ascii ''rating''))"
    and "truthy (get_prop_opt payload (ascii ''comment''))"
    and "to_string (get_prop_opt payload (ascii ''rating'')) = Inr rating_s"
    and "parseInt rating_s = Some n" "1 \<le> n" "n \<le> 5"
    and "to_string (get_prop_opt payload (ascii ''comment'')) = Inr comment_s"
    and "5 \<le> length (trim (take 500 comment_s))"
    and "to_string (get_prop_opt payload (ascii ''userId'')) = Inr userId_s"
  shows "\<not> test_digits_15_20 userId_s \<Longrightarrow>
           validate_avis payload = Reply (reply 400 (ascii ''Invalid user ID''))"
    and "test_digits_15_20 userId_s \<Longrightarrow>
           validate_avis payload =
             Next \<lparr>avis_username = get_prop_opt payload (ascii ''username''),
                   avis_userId = get_prop_opt payload (ascii ''userId''),
                   avis_rating = n, avis_comment = take 500 comment_s,
                   avis_avatarUrl = get_prop_opt payload (ascii ''avatarUrl'')\<rparr>"
  using assms by (auto simp: validate_avis_def get_prop_total slice0_def)

lemma avis_forwarded_fields:
  assumes "posted (handler_avis ev en rl) = Some (url, doc)"
  shows "\<exists>payload rating_s n comment_s userId_s e fs.
     body_json ev = Some payload \<and>
     to_string (get_prop_opt payload (ascii ''rating'')) = Inr rating_s \<and>
     parseInt rating_s = Some n \<and> 1 \<le> n \<and> n \<le> 5 \<and>
     to_string (get_prop_opt payload (ascii ''comment'')) = Inr comment_s \<and>
     5 \<le> length (trim (take 500 comment_s)) \<and>
     to_string (get_prop_opt payload (ascii ''userId'')) = Inr userId_s \<and>
     test_digits_15_20 userId_s \<and>
     get_prop_opt doc (ascii ''embeds'') = Arr [e] \<and>
     get_prop_opt e (ascii ''fields'') = Arr fs \<and> length fs = 4 \<and>
     fs ! 2 = Obj [(ascii ''name'', Str (ascii ''Note'')),
                   (ascii ''value'', Str (replicate (nat n) star)),
                   (ascii ''inline'', Bool False)] \<and>
     fs ! 3 = Obj [(ascii ''name'', Str (ascii ''Commentaire'')),
                   (ascii ''value'', Str (take 500 comment_s)),
                   (ascii ''inline'', Bool False)]"
proof -
  from avis_posted [OF assms] obtain payload a safePayload where
    body: "body_json ev = Some payload" and val: "validate_avis payload = Next a" and
    safe: "safePayload_avis (iso_clock en 0) a = Inr safePayload" and
    doc: "doc = JSON_stringify safePayload"
    by blast
  from validate_avis_Next [OF val] obtain rating_s comment_s userId_s where
    v: "to_string (get_prop_opt payload (ascii ''rating'')) = Inr rating_s"
      "parseInt rating_s = Some (avis_rating a)" "1 \<le> avis_rating a" "avis_rating a \<le> 5"
      "to_string (get_prop_opt payload (ascii ''comment'')) = Inr comment_s"
      "avis_comment a = take 500 comment_s" "5 \<le> length (trim (avis_comment a))"
      "to_string (get_prop_opt payload (ascii ''userId'')) = Inr userId_s"
      "test_digits_15_20 userId_s"
    by blast
  from safePayload_avis_shape [OF safe] obtain u i thumb where
    shape: "JSON_stringify safePayload =
       Obj [(ascii ''content'',
               Str ([star] @ ascii '' **Nouvel avis re'' @ [0xE7] @ ascii ''u !**'')),
            (ascii ''embeds'', Arr [Obj
               ([(ascii ''title'', Str ([0xD83D, 0xDCAC] @ ascii '' Avis Client'')),
                 (ascii ''color'', Num (ascii ''16777215''))] @ thumb @
                [(ascii ''fields'', Arr
                    [Obj [(ascii ''name'', Str (ascii ''Utilisateur'')),
                          (ascii ''value'', Str (take 100 u)),
                          (ascii ''inline'', Bool True)],
                     Obj [(ascii ''name'', Str (ascii ''ID'')),
                          (ascii ''value'', Str (take 20 i)),
                          (ascii ''inline'', Bool True)],
                     Obj [(ascii ''name'', Str (ascii ''Note'')),
                          (ascii ''value'', Str (replicate (nat (avis_rating a)) star)),
                          (ascii ''inline'', Bool False)],
                     Obj [(ascii ''name'', Str (ascii ''Commentaire'')),
                          (ascii ''value'', Str (avis_comment a)),
                          (ascii ''inline'', Bool False)]]),
                 (ascii ''timestamp'', Str (iso_clock en 0))])])]" and
    th: "if truthy (avis_avatarUrl a)
      then \<exists>s. to_string (avis_avatarUrl a) = Inr s \<and>
             thumb = [(ascii ''thumbnail'', Obj [(ascii ''url'', Str (take 512 s))])]
      else thumb = []"
    by blast
  have e: "get_prop_opt doc (ascii ''embeds'') = Arr [Obj
               ([(ascii ''title'', Str ([0xD83D, 0xDCAC] @ ascii '' Avis Client'')),
                 (ascii ''color'', Num (ascii ''16777215''))] @ thumb @
                [(ascii ''fields'', Arr
                    [Obj [(ascii ''name'', Str (ascii ''Utilisateur'')),
                          (ascii ''value'', Str (take 100 u)),
                          (ascii ''inline'', Bool True)],
                     Obj [(ascii ''name'', Str (ascii ''ID'')),
                          (ascii ''value'', Str (take 20 i)),
                          (ascii ''inline'', Bool True)],
                     Obj [(ascii ''name'', Str (ascii ''Note'')),
                          (ascii ''value'', Str (replicate (nat (avis_rating a)) star)),
                          (ascii ''inline'', Bool False)],
                     Obj [(ascii ''name'', Str (ascii ''Commentaire'')),
                          (ascii ''value'', Str (avis_comment a)),
                          (ascii ''inline'', Bool False)]]),
                 (ascii ''timestamp'', Str (iso_clock en 0))])]"
    by (simp add: doc shape ascii_eq_iff)
  have f: "get_prop_opt (Obj
               ([(ascii ''title'', Str ([0xD83D, 0xDCAC] @ ascii '' Avis Client'')),
                 (ascii ''color'', Num (ascii ''16777215''))] @ thumb @
                [(ascii ''fields'', Arr
                    [Obj [(ascii ''name'', Str (ascii ''Utilisateur'')),
                          (ascii ''value'', Str (take 100 u)),
                          (ascii ''inline'', Bool True)],
                     Obj [(ascii ''name'', Str (ascii ''ID'')),
                          (ascii ''value'', Str (take 20 i)),
                          (ascii ''inline'', Bool True)],
                     Obj [(ascii ''name'', Str (ascii ''Note'')),
                          (ascii ''value'', Str (replicate (nat (avis_rating a)) star)),
                          (ascii ''inline'', Bool False)],
                     Obj [(ascii ''name'', Str (ascii ''Commentaire'')),
                          (ascii ''value'', Str (avis_comment a)),
                          (ascii ''inline'', Bool False)]]),
                 (ascii ''timestamp'', Str (iso_clock en 0))])) (ascii ''fields'') =
           Arr [Obj [(ascii ''name'', Str (ascii ''Utilisateur'')),
                          (ascii ''value'', Str (take 100 u)),
                          (ascii ''inline'', Bool True)],
                     Obj [(ascii ''name'', Str (ascii ''ID'')),
                          (ascii ''value'', Str (take 20 i)),
                          (ascii ''inline'', Bool True)],
                     Obj [(ascii ''name'', Str (ascii ''Note'')),
                          (ascii ''value'', Str (replicate (nat (avis_rating a)) star)),
                          (ascii ''inline'', Bool False)],
                     Obj [(ascii ''name'', Str (ascii ''Commentaire'')),
                          (ascii ''value'', Str (avis_comment a)),
                          (ascii ''inline'', Bool False)]]"
    using th by (auto simp: ascii_eq_iff split: if_splits)
  show ?thesis
    using body v e f by (fastforce simp: numeral_2_eq_2 numeral_3_eq_3)
qed

text \<open>
  C3. A rating that is an object with an own property \<open>toString\<close> is truthy and does not
  parse to an integer, yet the handler does not return 400: \<open>parseInt\<close> converts its
  argument to a string, the conversion throws a TypeError, and nothing catches it.
\<close>

theorem rating_object_throws:
  "handler_avis
     (site_post (Obj [(ascii ''username'', Str (ascii ''Ana'')),
        (ascii ''userId'', Str (ascii ''123456789012345'')),
        (ascii ''rating'', Obj [(ascii ''toString'', Num (ascii ''1''))]),
        (ascii ''comment'', Str (ascii ''Super travail''))]))
     example_env Map.empty =
   \<lparr>outcome = Throws TypeError,
    rateLimitMap = [ascii ''203.0.113.7'' \<mapsto> \<lparr>count = 1, start = 1000\<rparr>],
    posted = None\<rparr>"
  by (simp add: handler_avis_def site_post_def example_env_def request_origin_allowed
      isRateLimited_avis_def RATE_LIMIT_WINDOW_MS_avis_def RATE_LIMIT_MAX_avis_def
      client_ip_def validate_avis_def ascii_def)

text \<open>
  C4. A comment, or a user ID, that is an object with an own property \<open>toString\<close> is
  neither a comment of five characters nor 15 to 20 digits, yet the handler does not return
  400: \<open>String(comment)\<close> and \<open>String(userId)\<close> throw a TypeError that nothing catches.
\<close>

theorem comment_or_userId_object_throws:
  "handler_avis
     (site_post (Obj [(ascii ''username'', Str (ascii ''Ana'')),
        (ascii ''userId'', Str (ascii ''123456789012345'')),
        (ascii ''rating'', Num (ascii ''3'')),
        (ascii ''comment'', Obj [(ascii ''toString'', Num (ascii ''1''))])]))
     example_env Map.empty =
   \<lparr>outcome = Throws TypeError,
    rateLimitMap = [ascii ''203.0.113.7'' \<mapsto> \<lparr>count = 1, start = 1000\<rparr>],
    posted = None\<rparr> \<and>
   handler_avis
     (site_post (Obj [(ascii ''username'', Str (ascii ''Ana'')),
        (ascii ''userId'', Obj [(ascii ''toString'', Num (ascii ''1''))]),
        (ascii ''rating'', Num (ascii ''3'')),
        (ascii ''comment'', Str (ascii ''Super travail''))]))
     example_env Map.empty =
   \<lparr>outcome = Throws TypeError,
    rateLimitMap = [ascii ''203.0.113.7'' \<mapsto> \<lparr>count = 1, start = 1000\<rparr>],
    posted = None\<rparr>"
  by (simp add: handler_avis_def site_post_def example_env_def request_origin_allowed
      isRateLimited_avis_def RATE_LIMIT_WINDOW_MS_avis_def RATE_LIMIT_MAX_avis_def
      client_ip_def validate_avis_def parseInt_def is_white_space_def digit_value_def
      trim_def slice0_def ascii_def)

text \<open>The specification's examples: the ratings \<open>"0"\<close>, 0, 6 and \<open>"abc"\<close>, the comment
  \<open>hi\<close> and the three-digit ID are answered 400; a comment of 600 code units is cut to 500
  before its length is checked.\<close>

lemma validate_avis_examples:
  "validate_avis (Obj [(ascii ''username'', Str (ascii ''Ana'')),
      (ascii ''userId'', Str (ascii ''123456789012345'')),
      (ascii ''rating'', Str (ascii ''0'')),
      (ascii ''comment'', Str (ascii ''Super travail''))]) =
     Reply (reply 400 (ascii ''Invalid rating''))"
  "validate_avis (Obj [(ascii ''username'', Str (ascii ''Ana'')),
      (ascii ''userId'', Str (ascii ''123456789012345'')),
      (ascii ''rating'', Num (ascii ''0'')),
      (ascii ''comment'', Str (ascii ''Super travail''))]) =
     Reply (reply 400 (ascii ''Missing fields''))"
  "validate_avis (Obj [(ascii ''username'', Str (ascii ''Ana'')),
      (ascii ''userId'', Str (ascii ''123456789012345'')),
      (ascii ''rating'', Num (ascii ''6'')),
      (ascii ''comment'', Str (ascii ''Super travail''))]) =
     Reply (reply 400 (ascii ''Invalid rating''))"
  "validate_avis (Obj [(ascii ''username'', Str (ascii ''Ana'')),
      (ascii ''userId'', Str (ascii ''123456789012345'')),
      (ascii ''rating'', Str (ascii ''abc'')),
      (ascii ''comment'', Str (ascii ''Super travail''))]) =
     Reply (reply 400 (ascii ''Invalid rating''))"
  "validate_avis (Obj [(ascii ''username'', Str (ascii ''Ana'')),
      (ascii ''userId'', Str (ascii ''123456789012345'')),
      (ascii ''rating'', Num (ascii ''3'')),
      (ascii ''comment'', Str (ascii ''hi''))]) =
     Reply (reply 400 (ascii ''Comment too short''))"
  "validate_avis (Obj [(ascii ''username'', Str (ascii ''Ana'')),
      (ascii ''userId'', Str (ascii ''123'')),
      (ascii ''rating'', Num (ascii ''3'')),
      (ascii ''comment'', Str (ascii ''Super travail''))]) =
     Reply (reply 400 (ascii ''Invalid user ID''))"
  by (simp_all add: validate_avis_def parseInt_def is_white_space_def digit_value_def
      trim_def test_digits_15_20_def slice0_def ascii_def)

lemma long_comment_truncated:
  "validate_avis (Obj [(ascii ''username'', Str (ascii ''Ana'')),
      (ascii ''userId'', Str (ascii ''123456789012345'')),
      (ascii ''rating'', Num (ascii ''3'')),
      (ascii ''comment'', Str (replicate 600 0x61))]) =
     Next \<lparr>avis_username = Str (ascii ''Ana''),
           avis_userId = Str (ascii ''123456789012345''),
           avis_rating = 3, avis_comment = replicate 500 0x61,
           avis_avatarUrl = Undefined\<rparr>"
proof -
  have "trim (replicate 500 (0x61 :: code_unit)) = replicate 500 0x61"
    by (simp add: trim_def is_white_space_def dropWhile_eq_self_iff
        hd_replicate del: replicate_eq_replicate)
  then show ?thesis
    by (simp add: validate_avis_def parseInt_def is_white_space_def digit_value_def
        test_digits_15_20_def slice0_def ascii_def)
qed

end
